theory Spec2Isabelle
  imports Complex_Main
begin

section \<open>Errors\<close>

text \<open>
  Every \<open>raise\<close> of the two modules, and the exceptions of the Python operations they
  use, is a value of this type. \<open>NotFound\<close> carries the path formatted into the message
  \<open>not found any img file in {}\<close> of \<open>get_image_list\<close>; \<open>RuntimeError\<close> is the
  \<open>RuntimeError\<close> raised by \<open>_load_pretrained\<close>; \<open>ZeroDivisionError\<close> and \<open>ComplexBound\<close> are the
  two ways the arithmetic of \<open>xavier\<close> can leave the real numbers; \<open>LoaderError\<close> stands
  for whatever the checkpoint loaders raise; \<open>ShapeError\<close> is a layer rejecting the shape
  of its input.
\<close>

datatype error =
    IndexError
  | NotFound "string option"
  | RuntimeError
  | ZeroDivisionError
  | ComplexBound
  | KeyError
  | LoaderError string
  | ShapeError

definition err_bind :: "error + 'a \<Rightarrow> ('a \<Rightarrow> error + 'b) \<Rightarrow> error + 'b" where
  "err_bind r f = (case r of Inl e \<Rightarrow> Inl e | Inr v \<Rightarrow> f v)"

section \<open>tools/infer/py\_infer.py: postprocess\<close>

text \<open>
  \<^verbatim>\<open>
  def postprocess(outputs, topk=5):
      output = outputs[0]
      prob = np.array(output).flatten()
      index = prob.argsort(axis=0)[-topk:][::-1].astype('int32')
      return zip(index, prob[index])
  \<close>
  \<open>outputs\<close> is the list of fetched tensors; the first one is a batch of score rows, which
  \<open>flatten\<close> lays out row after row. Scores are the elements of any linear order.
\<close>

definition flatten :: "'a list list \<Rightarrow> 'a list" where
  "flatten output = concat output"

text \<open>
  Modelled from the spec: \<open>argsort\<close> belongs to the numerical library and is not part of
  the repository. The spec describes it as a stable sort in index order (lower index
  first): the indices \<open>0 ..< n\<close>, sorted by ascending score, equal scores keeping their
  index order.
\<close>

definition argsort :: "'a::linorder list \<Rightarrow> nat list" where
  "argsort prob = sort_key (\<lambda>i. prob ! i) [0..<length prob]"

text \<open>
  The slice \<open>a[-topk:]\<close>. Python resolves the start \<open>s = -topk\<close> of a slice against the
  length \<open>n\<close>: a negative start counts from the end and is clamped at \<open>0\<close>, a start that is
  not negative is clamped at \<open>n\<close>. So \<open>-0\<close> is the start \<open>0\<close>: the whole array.
\<close>

definition slice_from :: "int \<Rightarrow> 'b list \<Rightarrow> 'b list" where
  "slice_from s a =
     (let n = int (length a);
          start = (if s < 0 then max 0 (n + s) else min s n)
      in drop (nat start) a)"

definition last_topk :: "int \<Rightarrow> 'b list \<Rightarrow> 'b list" where
  "last_topk topk a = slice_from (- topk) a"

text \<open>\<open>astype('int32')\<close>: the index keeps its low 32 bits, read as a signed number.\<close>

definition astype_int32 :: "int \<Rightarrow> int" where
  "astype_int32 i = (i + 2 ^ 31) mod 2 ^ 32 - 2 ^ 31"

text \<open>
  \<open>prob[index]\<close> with an integer array: each index is looked up on its own, a negative one
  counts from the end, and one out of range raises \<open>IndexError\<close>.
\<close>

definition getitem :: "'a list \<Rightarrow> int \<Rightarrow> error + 'a" where
  "getitem prob i =
     (let n = int (length prob); j = (if i < 0 then n + i else i)
      in if 0 \<le> j \<and> j < n then Inr (prob ! nat j) else Inl IndexError)"

fun take_all :: "'a list \<Rightarrow> int list \<Rightarrow> error + 'a list" where
  "take_all prob [] = Inr []"
| "take_all prob (i # is) =
     (case getitem prob i of
        Inl e \<Rightarrow> Inl e
      | Inr v \<Rightarrow> (case take_all prob is of Inl e \<Rightarrow> Inl e | Inr vs \<Rightarrow> Inr (v # vs)))"

definition postprocess :: "'a::linorder list list list \<Rightarrow> int \<Rightarrow> error + (int \<times> 'a) list" where
  "postprocess outputs topk =
     (case outputs of
        [] \<Rightarrow> Inl IndexError
      | output # _ \<Rightarrow>
          (let prob = flatten output;
               index = map (astype_int32 \<circ> int) (rev (last_topk topk (argsort prob)))
           in case take_all prob index of
                Inl e \<Rightarrow> Inl e
              | Inr scores \<Rightarrow> Inr (zip index scores)))"

text \<open>
  The same function with the sort left open: \<open>prob.argsort(axis=0)\<close> is called with the
  library's default kind, which does not promise an order among equal scores, so what
  holds of the code whatever that order is, is stated of \<open>postprocess_with asort\<close> for
  every \<open>asort\<close> that returns each index of the vector once.
\<close>

definition postprocess_with ::
  "('a list \<Rightarrow> nat list) \<Rightarrow> 'a list list list \<Rightarrow> int \<Rightarrow> error + (int \<times> 'a) list" where
  "postprocess_with asort outputs topk =
     (case outputs of
        [] \<Rightarrow> Inl IndexError
      | output # _ \<Rightarrow>
          (let prob = flatten output;
               index = map (astype_int32 \<circ> int) (rev (last_topk topk (asort prob)))
           in case take_all prob index of
                Inl e \<Rightarrow> Inl e
              | Inr scores \<Rightarrow> Inr (zip index scores)))"

text \<open>
  The order in which \<open>argsort\<close>, the slice and the reversal leave the indices, before the
  cast and the lookup: a name for the middle of \<open>postprocess\<close>, used in the proofs.
\<close>

definition ranking :: "'a::linorder list \<Rightarrow> int \<Rightarrow> nat list" where
  "ranking prob topk = rev (last_topk topk (argsort prob))"

text \<open>
  \<open>ranked_before f a b\<close>: index \<open>a\<close> comes before index \<open>b\<close> in a stable ascending sort
  by the key \<open>f\<close>.
\<close>

definition ranked_before :: "(nat \<Rightarrow> 'a::linorder) \<Rightarrow> nat \<Rightarrow> nat \<Rightarrow> bool" where
  "ranked_before f a b = (f a < f b \<or> (f a = f b \<and> a < b))"

section \<open>tools/infer/py\_infer.py: get\_image\_list\<close>

text \<open>
  The file system as \<open>get_image_list\<close> sees it: a path names nothing, a regular file, a
  directory with its entries in the order \<open>os.listdir\<close> gives them, or something else
  that exists (a device, a socket).
\<close>

datatype fsnode = RegularFile | Directory "string list" | Special

type_synonym filesystem = "string \<Rightarrow> fsnode option"

definition path_exists :: "filesystem \<Rightarrow> string \<Rightarrow> bool" where
  "path_exists fs p = (fs p \<noteq> None)"

definition isfile :: "filesystem \<Rightarrow> string \<Rightarrow> bool" where
  "isfile fs p = (fs p = Some RegularFile)"

definition isdir :: "filesystem \<Rightarrow> string \<Rightarrow> bool" where
  "isdir fs p = (case fs p of Some (Directory _) \<Rightarrow> True | _ \<Rightarrow> False)"

definition listdir :: "filesystem \<Rightarrow> string \<Rightarrow> string list" where
  "listdir fs p = (case fs p of Some (Directory entries) \<Rightarrow> entries | _ \<Rightarrow> [])"

text \<open>
  \<open>s.split(c)\<close> for a one-character separator: the pieces between the separators, so one
  piece more than there are separators, and never an empty list.
\<close>

fun split_on :: "char \<Rightarrow> string \<Rightarrow> string list" where
  "split_on c [] = [[]]"
| "split_on c (x # xs) =
     (if x = c then [] # split_on c xs
      else (let r = split_on c xs in (x # hd r) # tl r))"

text \<open>\<open>name.split('.')[-1]\<close>; the list is never empty, so \<open>[-1]\<close> never raises.\<close>

definition last_piece :: "string \<Rightarrow> string" where
  "last_piece name = last (split_on CHR ''.'' name)"

definition img_end :: "string list" where
  "img_end = [''jpg'', ''png'', ''jpeg'', ''JPEG'', ''JPG'', ''bmp'']"

text \<open>\<open>os.path.join(a, b)\<close> on a POSIX system.\<close>

definition path_join :: "string \<Rightarrow> string \<Rightarrow> string" where
  "path_join a b =
     (if b \<noteq> [] \<and> hd b = CHR ''/'' then b
      else if a = [] \<or> last a = CHR ''/'' then a @ b
      else a @ ''/'' @ b)"

text \<open>The loop over the directory listing, appending to \<open>imgs_lists\<close>.\<close>

fun collect :: "string \<Rightarrow> string list \<Rightarrow> string list \<Rightarrow> string list" where
  "collect img_file [] imgs_lists = imgs_lists"
| "collect img_file (single_file # files) imgs_lists =
     collect img_file files
       (if last_piece single_file \<in> set img_end
        then imgs_lists @ [path_join img_file single_file]
        else imgs_lists)"

text \<open>
  \<^verbatim>\<open>
  def get_image_list(img_file):
      imgs_lists = []
      if img_file is None or not os.path.exists(img_file):
          raise Exception("not found any img file in {}".format(img_file))
      img_end = ['jpg', 'png', 'jpeg', 'JPEG', 'JPG', 'bmp']
      if os.path.isfile(img_file) and img_file.split('.')[-1] in img_end:
          imgs_lists.append(img_file)
      elif os.path.isdir(img_file):
          for single_file in os.listdir(img_file):
              if single_file.split('.')[-1] in img_end:
                  imgs_lists.append(os.path.join(img_file, single_file))
      if len(imgs_lists) == 0:
          raise Exception("not found any img file in {}".format(img_file))
      return imgs_lists
  \<close>
\<close>

definition get_image_list :: "filesystem \<Rightarrow> string option \<Rightarrow> error + string list" where
  "get_image_list fs img_file =
     (case img_file of
        None \<Rightarrow> Inl (NotFound None)
      | Some f \<Rightarrow>
          if \<not> path_exists fs f then Inl (NotFound (Some f))
          else
            (let imgs_lists =
                   (if isfile fs f \<and> last_piece f \<in> set img_end then [] @ [f]
                    else if isdir fs f then collect f (listdir fs f) []
                    else [])
             in if length imgs_lists = 0 then Inl (NotFound (Some f)) else Inr imgs_lists))"

text \<open>
  The spec's words for the test on a name: its final dot-separated suffix, that is, what
  follows the last dot (the whole name when it has no dot), is one of the enumerated
  extensions.
\<close>

definition final_suffix :: "string \<Rightarrow> string" where
  "final_suffix name = rev (takeWhile (\<lambda>c. c \<noteq> CHR ''.'') (rev name))"

definition supported_extensions :: "string set" where
  "supported_extensions = {''jpg'', ''png'', ''jpeg'', ''JPEG'', ''JPG'', ''bmp''}"

section \<open>ppcls/arch/backbone/model\_zoo/googlenet.py: layers\<close>

datatype data_format = NCHW | NHWC

datatype initializer = Uniform real real

text \<open>\<open>ParamAttr(initializer=..., name=...)\<close>; without an initializer the default one is used.\<close>

record param_attr =
  attr_initializer :: "initializer option"
  attr_name :: string

text \<open>
  \<^verbatim>\<open>
  def xavier(channels, filter_size, name):
      stdv = (3.0 / (filter_size**2 * channels))**0.5
      param_attr = ParamAttr(
          initializer=Uniform(-stdv, stdv), name=name + "_weights")
      return param_attr
  \<close>
  The quotient is a real number here. A zero divisor raises; a negative one makes
  \<open>**0.5\<close> a complex number, which bounds no interval of reals.
\<close>

definition xavier :: "int \<Rightarrow> int \<Rightarrow> string \<Rightarrow> error + param_attr" where
  "xavier channels filter_size name =
     (let d = filter_size ^ 2 * channels
      in if d = 0 then Inl ZeroDivisionError
         else if d < 0 then Inl ComplexBound
         else (let stdv = sqrt (3 / real_of_int d)
               in Inr \<lparr>attr_initializer = Some (Uniform (- stdv) stdv),
                       attr_name = name @ ''_weights''\<rparr>))"

record Conv2D =
  conv_in :: int
  conv_out :: int
  conv_kernel :: int
  conv_stride :: int
  conv_padding :: int
  conv_groups :: int
  conv_weight :: param_attr
  conv_bias :: bool
  conv_format :: data_format

text \<open>
  \<open>ConvLayer.__init__\<close> builds one \<open>Conv2D\<close> with \<open>padding = (filter_size - 1) // 2\<close> and
  no bias; \<open>act\<close> is not used. \<open>//\<close> is the floor division of \<open>div\<close> on \<open>int\<close>.
\<close>

definition ConvLayer_init ::
  "int \<Rightarrow> int \<Rightarrow> int \<Rightarrow> int \<Rightarrow> int \<Rightarrow> string \<Rightarrow> data_format \<Rightarrow> Conv2D" where
  "ConvLayer_init num_channels num_filters filter_size stride groups name data_format =
     \<lparr>conv_in = num_channels,
      conv_out = num_filters,
      conv_kernel = filter_size,
      conv_stride = stride,
      conv_padding = (filter_size - 1) div 2,
      conv_groups = groups,
      conv_weight = \<lparr>attr_initializer = None, attr_name = name @ ''_weights''\<rparr>,
      conv_bias = False,
      conv_format = data_format\<rparr>"

record Pool2D =
  pool_kernel :: int
  pool_stride :: int
  pool_padding :: int
  pool_format :: data_format

record Dropout =
  drop_p :: real
  drop_mode :: string

record Linear =
  lin_in :: int
  lin_out :: int
  lin_weight :: param_attr
  lin_bias :: param_attr

record Inception =
  i_data_format :: data_format
  i_conv1 :: Conv2D
  i_conv3r :: Conv2D
  i_conv3 :: Conv2D
  i_conv5r :: Conv2D
  i_conv5 :: Conv2D
  i_pool :: Pool2D
  i_convprj :: Conv2D

text \<open>\<open>Inception.__init__\<close>; \<open>output_channels\<close> is accepted and not used.\<close>

definition Inception_init ::
  "int \<Rightarrow> int \<Rightarrow> int \<Rightarrow> int \<Rightarrow> int \<Rightarrow> int \<Rightarrow> int \<Rightarrow> int \<Rightarrow> string \<Rightarrow> data_format \<Rightarrow> Inception" where
  "Inception_init input_channels output_channels filter1 filter3R filter3 filter5R filter5 proj
       name data_format =
     \<lparr>i_data_format = data_format,
      i_conv1 = ConvLayer_init input_channels filter1 1 1 1
                  (''inception_'' @ name @ ''_1x1'') data_format,
      i_conv3r = ConvLayer_init input_channels filter3R 1 1 1
                  (''inception_'' @ name @ ''_3x3_reduce'') data_format,
      i_conv3 = ConvLayer_init filter3R filter3 3 1 1
                  (''inception_'' @ name @ ''_3x3'') data_format,
      i_conv5r = ConvLayer_init input_channels filter5R 1 1 1
                  (''inception_'' @ name @ ''_5x5_reduce'') data_format,
      i_conv5 = ConvLayer_init filter5R filter5 5 1 1
                  (''inception_'' @ name @ ''_5x5'') data_format,
      i_pool = \<lparr>pool_kernel = 3, pool_stride = 1, pool_padding = 1, pool_format = data_format\<rparr>,
      i_convprj = ConvLayer_init input_channels proj 1 1 1
                  (''inception_'' @ name @ ''_3x3_proj'') data_format\<rparr>"

section \<open>Tensors as the operations that produce them\<close>

text \<open>
  The layers themselves belong to the numerical framework, not to the repository. A
  tensor is represented by the framework calls that produce it from the input of the
  forward pass, in the order the code makes them. Dropout carries the training flag of
  the layer that applies it.
\<close>

datatype tensor =
    Input
  | Transpose "nat list" tensor
  | ApplyConv Conv2D tensor
  | ApplyMaxPool Pool2D tensor
  | ApplyAvgPool Pool2D tensor
  | ApplyAdaptiveAvgPool int data_format tensor
  | Concat "tensor list" int
  | Relu tensor
  | ApplyDropout Dropout bool tensor
  | Flatten tensor
  | ApplyLinear Linear tensor

text \<open>
  \<^verbatim>\<open>
  def forward(self, inputs):
      conv1 = self._conv1(inputs)
      conv3r = self._conv3r(inputs)
      conv3 = self._conv3(conv3r)
      conv5r = self._conv5r(inputs)
      conv5 = self._conv5(conv5r)
      pool = self._pool(inputs)
      convprj = self._convprj(pool)
      if self.data_format == "NHWC":
          cat = paddle.concat([conv1, conv3, conv5, convprj], axis=3)
      else:
          cat = paddle.concat([conv1, conv3, conv5, convprj], axis=1)
      cat = F.relu(cat)
      return cat
  \<close>
\<close>

definition ConvLayer_forward :: "Conv2D \<Rightarrow> tensor \<Rightarrow> tensor" where
  "ConvLayer_forward conv inputs = ApplyConv conv inputs"

definition Inception_forward :: "Inception \<Rightarrow> tensor \<Rightarrow> tensor" where
  "Inception_forward self inputs =
     (let conv1 = ConvLayer_forward (i_conv1 self) inputs;
          conv3r = ConvLayer_forward (i_conv3r self) inputs;
          conv3 = ConvLayer_forward (i_conv3 self) conv3r;
          conv5r = ConvLayer_forward (i_conv5r self) inputs;
          conv5 = ConvLayer_forward (i_conv5 self) conv5r;
          pool = ApplyMaxPool (i_pool self) inputs;
          convprj = ConvLayer_forward (i_convprj self) pool;
          cat = (if i_data_format self = NHWC
                 then Concat [conv1, conv3, conv5, convprj] 3
                 else Concat [conv1, conv3, conv5, convprj] 1)
      in Relu cat)"

section \<open>googlenet.py: GoogLeNetDY\<close>

text \<open>
  The parameters of a model: the arrays by name. \<open>g_training\<close> is the mode flag every
  layer carries; a new layer is in training mode.
\<close>

type_synonym parameters = "string \<Rightarrow> real list option"

record GoogLeNetDY =
  g_data_format :: data_format
  g_conv :: Conv2D
  g_pool :: Pool2D
  g_conv_1 :: Conv2D
  g_conv_2 :: Conv2D
  g_ince3a :: Inception
  g_ince3b :: Inception
  g_ince4a :: Inception
  g_ince4b :: Inception
  g_ince4c :: Inception
  g_ince4d :: Inception
  g_ince4e :: Inception
  g_ince5a :: Inception
  g_ince5b :: Inception
  g_pool_5 :: int
  g_drop :: Dropout
  g_fc_out :: Linear
  g_pool_o1 :: Pool2D
  g_conv_o1 :: Conv2D
  g_fc_o1 :: Linear
  g_drop_o1 :: Dropout
  g_out1 :: Linear
  g_pool_o2 :: Pool2D
  g_conv_o2 :: Conv2D
  g_fc_o2 :: Linear
  g_drop_o2 :: Dropout
  g_out2 :: Linear
  g_training :: bool
  g_parameters :: parameters

text \<open>
  \<open>GoogLeNetDY.__init__(class_num=1000, data_format="NCHW")\<close>. The values the
  initializers draw for the parameters are the argument \<open>initial\<close>. The five calls of
  \<open>xavier\<close> are made in the order of the source.
\<close>

definition GoogLeNetDY_init :: "int \<Rightarrow> data_format \<Rightarrow> parameters \<Rightarrow> error + GoogLeNetDY" where
  "GoogLeNetDY_init class_num data_format initial =
     err_bind (xavier 1024 1 ''out'') (\<lambda>w_out.
     err_bind (xavier 2048 1 ''fc_o1'') (\<lambda>w_fc_o1.
     err_bind (xavier 1024 1 ''out1'') (\<lambda>w_out1.
     err_bind (xavier 2048 1 ''fc_o2'') (\<lambda>w_fc_o2.
     err_bind (xavier 1024 1 ''out2'') (\<lambda>w_out2.
     Inr \<lparr>g_data_format = data_format,
          g_conv = ConvLayer_init 3 64 7 2 1 ''conv1'' data_format,
          g_pool = \<lparr>pool_kernel = 3, pool_stride = 2, pool_padding = 0,
                    pool_format = data_format\<rparr>,
          g_conv_1 = ConvLayer_init 64 64 1 1 1 ''conv2_1x1'' data_format,
          g_conv_2 = ConvLayer_init 64 192 3 1 1 ''conv2_3x3'' data_format,
          g_ince3a = Inception_init 192 192 64 96 128 16 32 32 ''ince3a'' data_format,
          g_ince3b = Inception_init 256 256 128 128 192 32 96 64 ''ince3b'' data_format,
          g_ince4a = Inception_init 480 480 192 96 208 16 48 64 ''ince4a'' data_format,
          g_ince4b = Inception_init 512 512 160 112 224 24 64 64 ''ince4b'' data_format,
          g_ince4c = Inception_init 512 512 128 128 256 24 64 64 ''ince4c'' data_format,
          g_ince4d = Inception_init 512 512 112 144 288 32 64 64 ''ince4d'' data_format,
          g_ince4e = Inception_init 528 528 256 160 320 32 128 128 ''ince4e'' data_format,
          g_ince5a = Inception_init 832 832 256 160 320 32 128 128 ''ince5a'' data_format,
          g_ince5b = Inception_init 832 832 384 192 384 48 128 128 ''ince5b'' data_format,
          g_pool_5 = 1,
          g_drop = \<lparr>drop_p = 0.4, drop_mode = ''downscale_in_infer''\<rparr>,
          g_fc_out = \<lparr>lin_in = 1024, lin_out = class_num, lin_weight = w_out,
                      lin_bias = \<lparr>attr_initializer = None, attr_name = ''out_offset''\<rparr>\<rparr>,
          g_pool_o1 = \<lparr>pool_kernel = 5, pool_stride = 3, pool_padding = 0,
                       pool_format = data_format\<rparr>,
          g_conv_o1 = ConvLayer_init 512 128 1 1 1 ''conv_o1'' data_format,
          g_fc_o1 = \<lparr>lin_in = 1152, lin_out = 1024, lin_weight = w_fc_o1,
                     lin_bias = \<lparr>attr_initializer = None, attr_name = ''fc_o1_offset''\<rparr>\<rparr>,
          g_drop_o1 = \<lparr>drop_p = 0.7, drop_mode = ''downscale_in_infer''\<rparr>,
          g_out1 = \<lparr>lin_in = 1024, lin_out = class_num, lin_weight = w_out1,
                    lin_bias = \<lparr>attr_initializer = None, attr_name = ''out1_offset''\<rparr>\<rparr>,
          g_pool_o2 = \<lparr>pool_kernel = 5, pool_stride = 3, pool_padding = 0,
                       pool_format = data_format\<rparr>,
          g_conv_o2 = ConvLayer_init 528 128 1 1 1 ''conv_o2'' data_format,
          g_fc_o2 = \<lparr>lin_in = 1152, lin_out = 1024, lin_weight = w_fc_o2,
                     lin_bias = \<lparr>attr_initializer = None, attr_name = ''fc_o2_offset''\<rparr>\<rparr>,
          g_drop_o2 = \<lparr>drop_p = 0.7, drop_mode = ''downscale_in_infer''\<rparr>,
          g_out2 = \<lparr>lin_in = 1024, lin_out = class_num, lin_weight = w_out2,
                    lin_bias = \<lparr>attr_initializer = None, attr_name = ''out2_offset''\<rparr>\<rparr>,
          g_training = True,
          g_parameters = initial\<rparr>)))))"

text \<open>
  \<open>GoogLeNetDY.forward\<close>, statement by statement; \<open>x\<close> is rebound as in the source, and
  the three heads are returned as a list.
\<close>

definition GoogLeNetDY_forward :: "GoogLeNetDY \<Rightarrow> tensor \<Rightarrow> tensor list" where
  "GoogLeNetDY_forward self inputs0 =
     (let inputs = (if g_data_format self = NHWC then Transpose [0, 2, 3, 1] inputs0
                    else inputs0);
          x = ConvLayer_forward (g_conv self) inputs;
          x = ApplyMaxPool (g_pool self) x;
          x = ConvLayer_forward (g_conv_1 self) x;
          x = ConvLayer_forward (g_conv_2 self) x;
          x = ApplyMaxPool (g_pool self) x;

          x = Inception_forward (g_ince3a self) x;
          x = Inception_forward (g_ince3b self) x;
          x = ApplyMaxPool (g_pool self) x;

          ince4a = Inception_forward (g_ince4a self) x;
          x = Inception_forward (g_ince4b self) ince4a;
          x = Inception_forward (g_ince4c self) x;
          ince4d = Inception_forward (g_ince4d self) x;
          x = Inception_forward (g_ince4e self) ince4d;
          x = ApplyMaxPool (g_pool self) x;

          x = Inception_forward (g_ince5a self) x;
          ince5b = Inception_forward (g_ince5b self) x;

          x = ApplyAdaptiveAvgPool (g_pool_5 self) (g_data_format self) ince5b;
          x = ApplyDropout (g_drop self) (g_training self) x;
          x = Flatten x;
          out = ApplyLinear (g_fc_out self) x;

          x = ApplyAvgPool (g_pool_o1 self) ince4a;
          x = ConvLayer_forward (g_conv_o1 self) x;
          x = Flatten x;
          x = ApplyLinear (g_fc_o1 self) x;
          x = Relu x;
          x = ApplyDropout (g_drop_o1 self) (g_training self) x;
          out1 = ApplyLinear (g_out1 self) x;

          x = ApplyAvgPool (g_pool_o2 self) ince4d;
          x = ConvLayer_forward (g_conv_o2 self) x;
          x = Flatten x;
          x = ApplyLinear (g_fc_o2 self) x;
          x = ApplyDropout (g_drop_o2 self) (g_training self) x;
          out2 = ApplyLinear (g_out2 self) x
      in [out, out1, out2])"

text \<open>
  The stage-4 taps named in the forward pass, for stating where the auxiliary heads
  start: the tensor \<open>x\<close> that enters stage 4, and the outputs of its first and fourth
  modules.
\<close>

definition stage4_input :: "GoogLeNetDY \<Rightarrow> tensor \<Rightarrow> tensor" where
  "stage4_input self inputs0 =
     (let inputs = (if g_data_format self = NHWC then Transpose [0, 2, 3, 1] inputs0
                    else inputs0);
          x = ConvLayer_forward (g_conv self) inputs;
          x = ApplyMaxPool (g_pool self) x;
          x = ConvLayer_forward (g_conv_1 self) x;
          x = ConvLayer_forward (g_conv_2 self) x;
          x = ApplyMaxPool (g_pool self) x;
          x = Inception_forward (g_ince3a self) x;
          x = Inception_forward (g_ince3b self) x
      in ApplyMaxPool (g_pool self) x)"

section \<open>Shapes\<close>

text \<open>
  The shape each framework call gives its result, as the framework documents it: a
  convolution or pooling window of size \<open>k\<close>, stride \<open>s\<close> and padding \<open>p\<close> turns a side
  of length \<open>h\<close> into \<open>(h + 2p - k) // s + 1\<close>, which must be positive; a convolution
  and a linear layer reject an input whose channel or feature count is not the one they
  were built for; concatenation adds the sizes along its axis and needs all other sizes
  to agree; \<open>Flatten\<close> keeps the batch axis and multiplies the others.
\<close>

type_synonym shape = "int list"

fun unpack :: "data_format \<Rightarrow> shape \<Rightarrow> error + (int \<times> int \<times> int \<times> int)" where
  "unpack NCHW [n, c, h, w] = Inr (n, c, h, w)"
| "unpack NHWC [n, h, w, c] = Inr (n, c, h, w)"
| "unpack _ _ = Inl ShapeError"

fun pack :: "data_format \<Rightarrow> int \<times> int \<times> int \<times> int \<Rightarrow> shape" where
  "pack NCHW (n, c, h, w) = [n, c, h, w]"
| "pack NHWC (n, c, h, w) = [n, h, w, c]"

definition out_size :: "int \<Rightarrow> int \<Rightarrow> int \<Rightarrow> int \<Rightarrow> error + int" where
  "out_size h k s p =
     (if k \<le> 0 \<or> s \<le> 0 \<or> p < 0 then Inl ShapeError
      else (let out = (h + 2 * p - k) div s + 1
            in if out \<le> 0 then Inl ShapeError else Inr out))"

definition conv2d_shape :: "Conv2D \<Rightarrow> shape \<Rightarrow> error + shape" where
  "conv2d_shape conv sh =
     err_bind (unpack (conv_format conv) sh) (\<lambda>(n, c, h, w).
       if c \<noteq> conv_in conv then Inl ShapeError
       else
         err_bind (out_size h (conv_kernel conv) (conv_stride conv) (conv_padding conv)) (\<lambda>h'.
         err_bind (out_size w (conv_kernel conv) (conv_stride conv) (conv_padding conv)) (\<lambda>w'.
           Inr (pack (conv_format conv) (n, conv_out conv, h', w')))))"

definition pool2d_shape :: "Pool2D \<Rightarrow> shape \<Rightarrow> error + shape" where
  "pool2d_shape pool sh =
     err_bind (unpack (pool_format pool) sh) (\<lambda>(n, c, h, w).
       err_bind (out_size h (pool_kernel pool) (pool_stride pool) (pool_padding pool)) (\<lambda>h'.
       err_bind (out_size w (pool_kernel pool) (pool_stride pool) (pool_padding pool)) (\<lambda>w'.
         Inr (pack (pool_format pool) (n, c, h', w')))))"

definition adaptive_pool_shape :: "int \<Rightarrow> data_format \<Rightarrow> shape \<Rightarrow> error + shape" where
  "adaptive_pool_shape out fmt sh =
     err_bind (unpack fmt sh) (\<lambda>(n, c, h, w). Inr (pack fmt (n, c, out, out)))"

definition transpose_shape :: "nat list \<Rightarrow> shape \<Rightarrow> error + shape" where
  "transpose_shape perm sh =
     (if sort perm = [0..<length sh] then Inr (map (\<lambda>i. sh ! i) perm) else Inl ShapeError)"

definition flatten_shape :: "shape \<Rightarrow> error + shape" where
  "flatten_shape sh =
     (case sh of
        n # d # ds \<Rightarrow> Inr [n, prod_list (d # ds)]
      | _ \<Rightarrow> Inl ShapeError)"

definition linear_shape :: "Linear \<Rightarrow> shape \<Rightarrow> error + shape" where
  "linear_shape lin sh =
     (if sh = [] \<or> last sh \<noteq> lin_in lin then Inl ShapeError
      else Inr (butlast sh @ [lin_out lin]))"

definition concat_shape :: "int \<Rightarrow> shape list \<Rightarrow> error + shape" where
  "concat_shape axis shs =
     (case shs of
        [] \<Rightarrow> Inl ShapeError
      | sh # rest \<Rightarrow>
          (let a = nat axis
           in if axis < 0 \<or> length sh \<le> a
                 \<or> \<not> list_all (\<lambda>t. length t = length sh \<and> t[a := 0] = sh[a := 0]) rest
              then Inl ShapeError
              else Inr (sh[a := sum_list (map (\<lambda>t. t ! a) shs)])))"

fun shape_of :: "shape \<Rightarrow> tensor \<Rightarrow> error + shape"
  and shapes_of :: "shape \<Rightarrow> tensor list \<Rightarrow> error + shape list" where
  "shape_of inp Input = Inr inp"
| "shape_of inp (Transpose perm t) = err_bind (shape_of inp t) (transpose_shape perm)"
| "shape_of inp (ApplyConv conv t) = err_bind (shape_of inp t) (conv2d_shape conv)"
| "shape_of inp (ApplyMaxPool pool t) = err_bind (shape_of inp t) (pool2d_shape pool)"
| "shape_of inp (ApplyAvgPool pool t) = err_bind (shape_of inp t) (pool2d_shape pool)"
| "shape_of inp (ApplyAdaptiveAvgPool out fmt t) =
     err_bind (shape_of inp t) (adaptive_pool_shape out fmt)"
| "shape_of inp (Concat ts axis) = err_bind (shapes_of inp ts) (concat_shape axis)"
| "shape_of inp (Relu t) = shape_of inp t"
| "shape_of inp (ApplyDropout d training t) = shape_of inp t"
| "shape_of inp (Flatten t) = err_bind (shape_of inp t) flatten_shape"
| "shape_of inp (ApplyLinear lin t) = err_bind (shape_of inp t) (linear_shape lin)"
| "shapes_of inp [] = Inr []"
| "shapes_of inp (t # ts) =
     err_bind (shape_of inp t) (\<lambda>sh. err_bind (shapes_of inp ts) (\<lambda>shs. Inr (sh # shs)))"

section \<open>googlenet.py: loading pretrained weights\<close>

text \<open>
  What a caller may pass as \<open>pretrained\<close>: Python does not restrict it. \<open>PyObject\<close> is
  any value that is none of the others.
\<close>

datatype pyvalue = PyNone | PyBool bool | PyInt int | PyFloat real | PyStr string | PyObject

text \<open>
  \<open>load_dygraph_pretrain_from_url\<close> and \<open>load_dygraph_pretrain\<close> are imported from
  \<open>utils.save_load\<close>, which is not among the sources; they are parameters here. Each
  takes the model, writes the loaded arrays into it, and may raise.
\<close>

record save_load =
  load_dygraph_pretrain_from_url :: "GoogLeNetDY \<Rightarrow> string \<Rightarrow> bool \<Rightarrow> error + GoogLeNetDY"
  load_dygraph_pretrain :: "GoogLeNetDY \<Rightarrow> string \<Rightarrow> error + GoogLeNetDY"

definition MODEL_URLS :: "string \<Rightarrow> string option" where
  "MODEL_URLS =
     [''GoogLeNet'' \<mapsto>
        ''https://paddle-imagenet-models-name.bj.bcebos.com/dygraph/GoogLeNet_pretrained.pdparams'']"

text \<open>
  \<^verbatim>\<open>
  def _load_pretrained(pretrained, model, model_url, use_ssld=False):
      if pretrained is False:
          pass
      elif pretrained is True:
          load_dygraph_pretrain_from_url(model, model_url, use_ssld=use_ssld)
      elif isinstance(pretrained, str):
          load_dygraph_pretrain(model, pretrained)
      else:
          raise RuntimeError(
              "pretrained type is not available. Please use `string` or `boolean` type.")
  \<close>
  \<open>is False\<close> and \<open>is True\<close> hold of the two boolean objects only, so the integers \<open>0\<close>
  and \<open>1\<close> reach the last branch. The function returns the model as the call leaves it.
\<close>

definition load_pretrained ::
  "save_load \<Rightarrow> pyvalue \<Rightarrow> GoogLeNetDY \<Rightarrow> string \<Rightarrow> bool \<Rightarrow> error + GoogLeNetDY" where
  "load_pretrained sl pretrained model model_url use_ssld =
     (if pretrained = PyBool False then Inr model
      else if pretrained = PyBool True
        then load_dygraph_pretrain_from_url sl model model_url use_ssld
      else (case pretrained of
              PyStr path \<Rightarrow> load_dygraph_pretrain sl model path
            | _ \<Rightarrow> Inl RuntimeError))"

text \<open>
  \<^verbatim>\<open>
  def GoogLeNet(pretrained=False, use_ssld=False, **kwargs):
      model = GoogLeNetDY(**kwargs)
      _load_pretrained(
          pretrained, model, MODEL_URLS["GoogLeNet"], use_ssld=use_ssld)
      return model
  \<close>
  The keyword arguments are those of \<open>GoogLeNetDY.__init__\<close>.
\<close>

definition GoogLeNet ::
  "save_load \<Rightarrow> pyvalue \<Rightarrow> bool \<Rightarrow> int \<Rightarrow> data_format \<Rightarrow> parameters \<Rightarrow> error + GoogLeNetDY" where
  "GoogLeNet sl pretrained use_ssld class_num data_format initial =
     err_bind (GoogLeNetDY_init class_num data_format initial) (\<lambda>model.
       case MODEL_URLS ''GoogLeNet'' of
         None \<Rightarrow> Inl KeyError
       | Some model_url \<Rightarrow> load_pretrained sl pretrained model model_url use_ssld)"

section \<open>Example inputs\<close>

text \<open>A small file system and a pair of loaders, for trying the functions on.\<close>

definition demo_fs :: filesystem where
  "demo_fs = [''imgs'' \<mapsto> Directory [''a.jpg'', ''notes.txt'', ''b.JPEG'', ''c.PNG'', ''bmp''],
              ''photo.png'' \<mapsto> RegularFile,
              ''photo.PNG'' \<mapsto> RegularFile,
              ''photo.tiff'' \<mapsto> RegularFile,
              ''empty'' \<mapsto> Directory [],
              ''/dev/null'' \<mapsto> Special]"

definition demo_save_load :: save_load where
  "demo_save_load =
     \<lparr>load_dygraph_pretrain_from_url = (\<lambda>model url use_ssld. Inl (LoaderError url)),
      load_dygraph_pretrain =
        (\<lambda>model path. Inr (model\<lparr>g_parameters := [path \<mapsto> [1]]\<rparr>))\<rparr>"

section \<open>Properties of postprocess\<close>

subsection \<open>The cast and the lookup do nothing below \<open>2 ^ 31\<close> entries\<close>

lemma astype_int32_id: "i < 2 ^ 31 \<Longrightarrow> astype_int32 (int i) = int i"
  unfolding astype_int32_def by (simp add: zmod_trivial_iff) 

lemma take_all_in_range:
  "\<forall>i \<in> set is. i < length prob \<Longrightarrow> take_all prob (map int is) = Inr (map (\<lambda>i. prob ! i) is)"
  by (induction "is") (auto simp: getitem_def)

lemma set_argsort: "set (argsort prob) = {0..<length prob}"
  by (simp add: argsort_def)

lemma length_argsort: "length (argsort prob) = length prob"
  by (simp add: argsort_def)

lemma sorted_argsort: "sorted (map (\<lambda>i. prob ! i) (argsort prob))"
  by (simp add: argsort_def)

lemma insort_key_ranked:
  "sorted_wrt (ranked_before f) ys \<Longrightarrow> \<forall>y \<in> set ys. x < y \<Longrightarrow>
   sorted_wrt (ranked_before f) (insort_key f x ys)"
proof (induction ys)
  case Nil
  then show ?case by simp
next
  case (Cons y ys)
  show ?case
  proof (cases "f x \<le> f y")
    case True
    have "ranked_before f x z" if "z \<in> set (y # ys)" for z
    proof -
      have "f y \<le> f z" using Cons.prems(1) that by (auto simp: ranked_before_def)
      moreover have "x < z" using Cons.prems(2) that by auto
      ultimately show ?thesis using True by (auto simp: ranked_before_def)
    qed
    then show ?thesis using True Cons.prems(1) by simp
  next
    case False
    then have "ranked_before f y x" by (auto simp: ranked_before_def)
    moreover have "sorted_wrt (ranked_before f) (insort_key f x ys)"
      using Cons by simp
    ultimately show ?thesis using False Cons.prems(1) by (auto simp: set_insort_key)
  qed
qed

lemma sort_key_ranked:
  "sorted_wrt (<) xs \<Longrightarrow> sorted_wrt (ranked_before f) (sort_key f xs)"
proof (induction xs)
  case Nil
  then show ?case by simp
next
  case (Cons x xs)
  then show ?case by (simp add: insort_key_ranked)
qed

lemma argsort_ranked: "sorted_wrt (ranked_before (\<lambda>i. prob ! i)) (argsort prob)"
  unfolding argsort_def by (rule sort_key_ranked) simp

lemma set_last_topk: "set (last_topk topk a) \<subseteq> set a"
  by (auto simp: last_topk_def slice_from_def Let_def dest: in_set_dropD)

lemma last_topk_pos: "1 \<le> topk \<Longrightarrow> last_topk topk a = drop (length a - nat topk) a"
  by (auto simp: last_topk_def slice_from_def Let_def max_def intro!: arg_cong2[where f=drop])

lemma sorted_wrt_last_topk: "sorted_wrt R a \<Longrightarrow> sorted_wrt R (last_topk topk a)"
  by (simp add: last_topk_def slice_from_def Let_def)

lemma set_ranking: "set (ranking prob topk) \<subseteq> {0..<length prob}"
  using set_last_topk[of topk "argsort prob"] by (simp add: ranking_def set_argsort)

lemma postprocess_eq:
  assumes "length (flatten output) < 2 ^ 31"
  shows "postprocess (output # rest) topk =
         Inr (map (\<lambda>i. (int i, flatten output ! i)) (ranking (flatten output) topk))"
proof -
  let ?prob = "flatten output"
  let ?r = "ranking ?prob topk"
  have rng: "\<forall>i \<in> set ?r. i < length ?prob" using set_ranking[of ?prob topk] by auto
  then have "\<forall>i \<in> set ?r. i < 2 ^ 31" using assms by auto
  then have idx: "map (astype_int32 \<circ> int) ?r = map int ?r"
    by (simp add: astype_int32_id)
  have tk: "take_all ?prob (map int ?r) = Inr (map (\<lambda>i. ?prob ! i) ?r)"
    using rng by (rule take_all_in_range)
  have "postprocess (output # rest) topk =
        (case take_all ?prob (map (astype_int32 \<circ> int) ?r) of
           Inl e \<Rightarrow> Inl e
         | Inr scores \<Rightarrow> Inr (zip (map (astype_int32 \<circ> int) ?r) scores))"
    unfolding postprocess_def ranking_def Let_def by simp
  also have "\<dots> = Inr (zip (map int ?r) (map (\<lambda>i. ?prob ! i) ?r))"
    by (simp only: idx tk sum.case)
  finally show ?thesis
    by (simp add: zip_map_map zip_same_conv_map)
qed

lemma ranking_ranked:
  "sorted_wrt (\<lambda>a b. ranked_before (\<lambda>i. prob ! i) b a) (ranking prob topk)"
  unfolding ranking_def sorted_wrt_rev
  by (rule sorted_wrt_last_topk) (rule argsort_ranked)

lemma ranking_pos:
  "1 \<le> topk \<Longrightarrow> ranking prob topk = rev (drop (length prob - nat topk) (argsort prob))"
  by (simp add: ranking_def last_topk_pos length_argsort)

lemma length_ranking_pos:
  "1 \<le> topk \<Longrightarrow> length (ranking prob topk) = min (nat topk) (length prob)"
  by (simp add: ranking_pos length_argsort)

lemma hd_ranking:
  assumes "1 \<le> topk" and "prob \<noteq> []"
  shows "hd (ranking prob topk) = last (argsort prob)"
proof -
  have ne: "argsort prob \<noteq> []" using assms(2) length_argsort[of prob] by auto
  have "length prob - nat topk < length (argsort prob)"
    using assms by (cases prob) (auto simp: length_argsort)
  then have "drop (length prob - nat topk) (argsort prob) \<noteq> []" by simp
  then show ?thesis
    using assms(1) by (simp add: ranking_pos hd_rev)
qed

lemma last_argsort_max:
  assumes "prob \<noteq> []" and "j < length prob"
  shows "last (argsort prob) < length prob \<and> prob ! j \<le> prob ! last (argsort prob)"
proof -
  let ?a = "argsort prob"
  have ne: "?a \<noteq> []" using assms(1) length_argsort[of prob] by auto
  then have "last ?a \<in> set ?a" by simp
  then have rng: "last ?a < length prob" by (simp add: set_argsort)
  have "j \<in> set ?a" using assms(2) by (simp add: set_argsort)
  then obtain p where p: "p < length ?a" "?a ! p = j" by (auto simp: in_set_conv_nth)
  have "map (\<lambda>i. prob ! i) ?a ! p \<le> map (\<lambda>i. prob ! i) ?a ! (length ?a - 1)"
    using sorted_argsort[of prob] p(1) by (intro sorted_nth_mono) auto
  then have "prob ! j \<le> prob ! last ?a"
    using p ne by (simp add: last_conv_nth)
  then show ?thesis using rng by simp
qed

subsection \<open>The sort left open\<close>

lemma distinct_argsort: "distinct (argsort prob)"
  by (simp add: argsort_def)

lemma postprocess_with_argsort: "postprocess_with argsort outputs topk = postprocess outputs topk"
  by (simp add: postprocess_with_def postprocess_def)

lemma distinct_last_topk: "distinct a \<Longrightarrow> distinct (last_topk topk a)"
  by (simp add: last_topk_def slice_from_def Let_def)

lemma postprocess_with_eq:
  assumes "set (asort (flatten output)) \<subseteq> {0..<length (flatten output)}"
      and "length (flatten output) < 2 ^ 31"
  shows "postprocess_with asort (output # rest) topk =
         Inr (map (\<lambda>i. (int i, flatten output ! i))
                (rev (last_topk topk (asort (flatten output)))))"
proof -
  let ?prob = "flatten output"
  let ?r = "rev (last_topk topk (asort ?prob))"
  have rng: "\<forall>i \<in> set ?r. i < length ?prob"
    using assms(1) set_last_topk[of topk "asort ?prob"] by auto
  then have "\<forall>i \<in> set ?r. i < 2 ^ 31" using assms(2) by auto
  then have idx: "map (astype_int32 \<circ> int) ?r = map int ?r"
    by (simp add: astype_int32_id)
  have tk: "take_all ?prob (map int ?r) = Inr (map (\<lambda>i. ?prob ! i) ?r)"
    using rng by (rule take_all_in_range)
  have "postprocess_with asort (output # rest) topk =
        (case take_all ?prob (map (astype_int32 \<circ> int) ?r) of
           Inl e \<Rightarrow> Inl e
         | Inr scores \<Rightarrow> Inr (zip (map (astype_int32 \<circ> int) ?r) scores))"
    unfolding postprocess_with_def Let_def by simp
  also have "\<dots> = Inr (zip (map int ?r) (map (\<lambda>i. ?prob ! i) ?r))"
    by (simp only: idx tk sum.case)
  finally show ?thesis
    by (simp add: zip_map_map zip_same_conv_map)
qed

subsection \<open>The claims about postprocess\<close>

text \<open>
  C1, as amended. The claim says that a uniform vector is returned with its indices
  ascending, and equal scores with the lower index first. The code does not fix the
  order of equal scores: it reverses whatever order \<open>argsort\<close> leaves them in. What
  holds whatever that order is: for a vector of \<open>n < 2 ^ 31\<close> equal scores,
  \<open>postprocess\<close> does not fail, the returned scores are all equal, the returned indices
  are distinct indices of the vector, each paired with the score at that index, and for
  \<open>1 \<le> k \<le> n\<close> there are exactly \<open>k\<close> of them. Nothing is promised about the order
  of the indices.
\<close>

theorem postprocess_uniform_any_tie_order:
  assumes "distinct (asort (flatten output))"
      and "set (asort (flatten output)) = {0..<length (flatten output)}"
      and "length (flatten output) < 2 ^ 31"
      and "\<forall>x \<in> set (flatten output). \<forall>y \<in> set (flatten output). x = y"
  shows "\<exists>ps. postprocess_with asort (output # rest) topk = Inr ps
           \<and> (\<forall>p \<in> set ps. \<forall>q \<in> set ps. snd p = snd q)
           \<and> distinct (map fst ps)
           \<and> (\<forall>p \<in> set ps. 0 \<le> fst p \<and> fst p < int (length (flatten output))
                            \<and> snd p = flatten output ! nat (fst p))
           \<and> (1 \<le> topk \<longrightarrow> topk \<le> int (length (flatten output)) \<longrightarrow> int (length ps) = topk)"
proof -
  let ?prob = "flatten output"
  let ?n = "length ?prob"
  let ?r = "rev (last_topk topk (asort ?prob))"
  let ?ps = "map (\<lambda>i. (int i, ?prob ! i)) ?r"
  have sub: "set ?r \<subseteq> {0..<?n}"
    using assms(2) set_last_topk [of topk "asort ?prob"] by auto
  have "postprocess_with asort (output # rest) topk = Inr ?ps"
    using assms(2,3) by (intro postprocess_with_eq) simp_all
  moreover have "snd p = snd q" if "p \<in> set ?ps" "q \<in> set ?ps" for p q
  proof -
    have "snd p \<in> set ?prob" "snd q \<in> set ?prob" using that sub by auto
    then show ?thesis using assms(4) by blast
  qed
  moreover have "distinct (map fst ?ps)"
  proof -
    have "distinct ?r" using assms(1) by (simp add: distinct_last_topk)
    moreover have "map fst ?ps = map int ?r" by (simp add: comp_def)
    ultimately show ?thesis by (simp add: distinct_map inj_on_def)
  qed
  moreover have "\<forall>p \<in> set ?ps. 0 \<le> fst p \<and> fst p < int ?n \<and> snd p = ?prob ! nat (fst p)"
    using sub by auto
  moreover have "int (length ?ps) = topk" if "1 \<le> topk" "topk \<le> int ?n"
  proof -
    have "length (asort ?prob) = ?n"
      using assms(1,2) distinct_card [of "asort ?prob"] by simp
    then show ?thesis using that by (simp add: last_topk_pos)
  qed
  ultimately show ?thesis by blast
qed

text \<open>
  The scenario of the spec, \<open>k = 5\<close> over \<open>1000\<close> equal scores, with the stable sort the
  spec describes.
\<close>

theorem postprocess_uniform_any_tie_order_witness:
  "\<exists>ps. postprocess [[replicate 1000 (1::int)]] 5 = Inr ps
      \<and> (\<forall>p \<in> set ps. \<forall>q \<in> set ps. snd p = snd q)
      \<and> distinct (map fst ps)
      \<and> length ps = 5"
proof -
  let ?out = "[replicate 1000 (1::int)]"
  have h1: "distinct (argsort (flatten ?out))" by (rule distinct_argsort)
  have h2: "set (argsort (flatten ?out)) = {0..<length (flatten ?out)}" by (rule set_argsort)
  have h3: "length (flatten ?out) < 2 ^ 31" by (simp add: flatten_def)
  have h4: "\<forall>x \<in> set (flatten ?out). \<forall>y \<in> set (flatten ?out). x = y"
    by (simp add: flatten_def)
  from postprocess_uniform_any_tie_order
         [of argsort ?out "[]" 5, OF h1 h2 h3 h4]
  obtain ps where ps: "postprocess_with argsort [?out] 5 = Inr ps"
      "\<forall>p \<in> set ps. \<forall>q \<in> set ps. snd p = snd q" "distinct (map fst ps)"
      "1 \<le> (5::int) \<longrightarrow> 5 \<le> int (length (flatten ?out)) \<longrightarrow> int (length ps) = 5"
    by blast
  have len: "length ps = 5" using ps(4) by (simp add: flatten_def)
  have "postprocess [?out] 5 = Inr ps"
    using ps(1) by (simp only: postprocess_with_argsort)
  then show ?thesis using ps(2,3) len by blast
qed

text \<open>
  Another sort that returns the indices of a uniform vector in a sorted order gives the
  ascending indices the stable sort does not give: the order is the sort's, not the
  function's.
\<close>

lemma postprocess_with_other_tie_order:
  "postprocess_with (\<lambda>prob. rev [0..<length prob]) [[[1, 1, 1::int]]] 2 = Inr [(0, 1), (1, 1)]"
  by code_simp

text \<open>
  C1 as stated fails: three equal scores and \<open>k = 2\<close> give the indices \<open>2, 1\<close>, which
  are not ascending.
\<close>

theorem postprocess_uniform_counterexample:
  "postprocess [[[1, 1, 1::int]]] 2 = Inr [(2, 1), (1, 1)]
   \<and> \<not> sorted (map fst [(2::int, 1::int), (1, 1)])"
  by code_simp

text \<open>
  C2, as amended: for \<open>1 \<le> k \<le> n\<close> (and \<open>n < 2 ^ 31\<close>) the result has exactly \<open>k\<close>
  pairs, each an index of the vector with the score at that index, in non-increasing
  order of score, and when one index holds a score strictly above all others, the first
  pair carries that index. The claim as stated also covers \<open>k = 0\<close>, which the slice
  \<open>[-topk:]\<close> does not treat as "no entries".
\<close>

theorem postprocess_topk_sorted:
  assumes "1 \<le> topk"
      and "topk \<le> int (length (flatten output))"
      and "length (flatten output) < 2 ^ 31"
  shows "\<exists>ps. postprocess (output # rest) topk = Inr ps
           \<and> int (length ps) = topk
           \<and> sorted_wrt (\<lambda>p q. snd q \<le> snd p) ps
           \<and> (\<forall>p \<in> set ps. 0 \<le> fst p \<and> fst p < int (length (flatten output))
                            \<and> snd p = flatten output ! nat (fst p))
           \<and> (\<forall>i < length (flatten output).
                 (\<forall>j < length (flatten output). j \<noteq> i \<longrightarrow> flatten output ! j < flatten output ! i)
                 \<longrightarrow> fst (hd ps) = int i)"
proof -
  let ?prob = "flatten output"
  let ?r = "ranking ?prob topk"
  let ?ps = "map (\<lambda>i. (int i, ?prob ! i)) ?r"
  have ne: "?prob \<noteq> []" using assms(1,2) by auto
  have "postprocess (output # rest) topk = Inr ?ps"
    using assms(3) by (rule postprocess_eq)
  moreover have len: "int (length ?ps) = topk"
    using assms(1,2) by (simp add: length_ranking_pos)
  moreover have "sorted_wrt (\<lambda>p q. snd q \<le> snd p) ?ps"
    using ranking_ranked[of ?prob topk]
    by (auto simp: sorted_wrt_map ranked_before_def elim!: sorted_wrt_mono_rel[rotated])
  moreover have "\<forall>p \<in> set ?ps. 0 \<le> fst p \<and> fst p < int (length ?prob) \<and> snd p = ?prob ! nat (fst p)"
    using set_ranking[of ?prob topk] by auto
  moreover have "fst (hd ?ps) = int i"
    if i: "i < length ?prob" and mx: "\<forall>j < length ?prob. j \<noteq> i \<longrightarrow> ?prob ! j < ?prob ! i" for i
  proof -
    let ?m = "last (argsort ?prob)"
    have "?r \<noteq> []" using len assms(1) by auto
    then have "fst (hd ?ps) = int (hd ?r)" by (simp add: hd_map)
    also have "hd ?r = ?m" using assms(1) ne by (rule hd_ranking)
    finally have h: "fst (hd ?ps) = int ?m" .
    have "?m < length ?prob \<and> ?prob ! i \<le> ?prob ! ?m"
      using ne i by (rule last_argsort_max)
    then have "?m = i" using mx by (metis not_le)
    then show ?thesis using h by simp
  qed
  ultimately show ?thesis by blast
qed

theorem postprocess_topk_sorted_witness:
  "\<exists>ps. postprocess [[[1, 5, 3::int]]] 2 = Inr ps
      \<and> int (length ps) = 2
      \<and> sorted_wrt (\<lambda>p q. snd q \<le> snd p) ps
      \<and> fst (hd ps) = 1"
proof -
  have h1: "1 \<le> (2::int)" by simp
  have h2: "(2::int) \<le> int (length (flatten [[1, 5, 3::int]]))" by (simp add: flatten_def)
  have h3: "length (flatten [[1, 5, 3::int]]) < 2 ^ 31" by (simp add: flatten_def)
  from postprocess_topk_sorted [OF h1 h2 h3, of "[]"]
  obtain ps where ps: "postprocess [[[1, 5, 3::int]]] 2 = Inr ps" "int (length ps) = 2"
      "sorted_wrt (\<lambda>p q. snd q \<le> snd p) ps"
    and mx: "\<forall>i < length (flatten [[1, 5, 3::int]]).
              (\<forall>j < length (flatten [[1, 5, 3::int]]).
                  j \<noteq> i \<longrightarrow> flatten [[1, 5, 3::int]] ! j < flatten [[1, 5, 3::int]] ! i)
              \<longrightarrow> fst (hd ps) = int i"
    by blast
  have top: "\<forall>j < length (flatten [[1, 5, 3::int]]).
               j \<noteq> 1 \<longrightarrow> flatten [[1, 5, 3::int]] ! j < flatten [[1, 5, 3::int]] ! 1"
    by (auto simp: flatten_def less_Suc_eq numeral_3_eq_3)
  have "1 < length (flatten [[1, 5, 3::int]])" by (simp add: flatten_def)
  then have "fst (hd ps) = int 1"
    using mx top by blast
  then show ?thesis using ps by auto
qed

text \<open>
  C2 as stated fails at \<open>k = 0\<close>: a vector of two scores has at least \<open>0\<close> entries, and
  the code returns both pairs, not none.
\<close>

theorem postprocess_topk_zero_counterexample:
  "0 \<le> int (length (flatten [[7, 3::int]]))
   \<and> postprocess [[[7, 3::int]]] 0 = Inr [(0, 7), (1, 3)]
   \<and> int (length [(0::int, 7::int), (1, 3)]) \<noteq> 0"
  by code_simp

text \<open>
  C9: when the flattened vector has \<open>C\<close> entries and \<open>C < k\<close>, postprocess does not
  fail and returns \<open>C\<close> pairs, one for each index of the vector, each with the score at
  its index (\<open>C < 2 ^ 31\<close>, so that the cast to \<open>int32\<close> is exact).
\<close>

theorem postprocess_short_vector:
  assumes "int (length (flatten output)) < topk"
      and "length (flatten output) < 2 ^ 31"
  shows "\<exists>ps. postprocess (output # rest) topk = Inr ps
           \<and> length ps = length (flatten output)
           \<and> fst ` set ps = int ` {0..<length (flatten output)}
           \<and> (\<forall>p \<in> set ps. snd p = flatten output ! nat (fst p))"
proof -
  let ?prob = "flatten output"
  let ?ps = "map (\<lambda>i. (int i, ?prob ! i)) (ranking ?prob topk)"
  have k: "1 \<le> topk" using assms(1) by linarith
  have r: "ranking ?prob topk = rev (argsort ?prob)"
    using assms(1) k by (simp add: ranking_pos)
  have "postprocess (output # rest) topk = Inr ?ps"
    using assms(2) by (rule postprocess_eq)
  moreover have "length ?ps = length ?prob"
    by (simp add: r length_argsort)
  moreover have "fst ` set ?ps = int ` {0..<length ?prob}"
    by (simp add: r set_argsort image_image)
  moreover have "\<forall>p \<in> set ?ps. snd p = ?prob ! nat (fst p)"
    by auto
  ultimately show ?thesis by blast
qed

theorem postprocess_short_vector_witness:
  "int (length (flatten [[3, 1, 2::int]])) < 5
   \<and> (\<exists>ps. postprocess [[[3, 1, 2::int]]] 5 = Inr ps \<and> length ps = 3)"
proof -
  have h1: "int (length (flatten [[3, 1, 2::int]])) < 5" by (simp add: flatten_def)
  have h2: "length (flatten [[3, 1, 2::int]]) < 2 ^ 31" by (simp add: flatten_def)
  from postprocess_short_vector [OF h1 h2, of "[]"]
  obtain ps where "postprocess [[[3, 1, 2::int]]] 5 = Inr ps"
      "length ps = length (flatten [[3, 1, 2::int]])"
    by blast
  then have "\<exists>ps. postprocess [[[3, 1, 2::int]]] 5 = Inr ps \<and> length ps = 3"
    by (auto simp: flatten_def)
  then show ?thesis using h1 by simp
qed

section \<open>Properties of get\_image\_list\<close>

subsection \<open>The last piece of a split is what follows the last separator\<close>

lemma split_on_not_empty: "split_on c s \<noteq> []"
  by (induction s) (auto simp: Let_def)

lemma split_on_no_sep: "c \<notin> set s \<Longrightarrow> split_on c s = [s]"
  by (induction s) (auto simp: Let_def)

lemma split_on_sep: "c \<in> set s \<Longrightarrow> tl (split_on c s) \<noteq> []"
  by (induction s) (auto simp: Let_def split_on_not_empty)

lemma last_split_on:
  "last (split_on c s) = rev (takeWhile (\<lambda>x. x \<noteq> c) (rev s))"
proof (induction s)
  case Nil
  then show ?case by simp
next
  case (Cons x xs)
  let ?r = "split_on c xs"
  have ne: "?r \<noteq> []" by (rule split_on_not_empty)
  show ?case
  proof (cases "c \<in> set xs")
    case True
    then have "tl ?r \<noteq> []" by (rule split_on_sep)
    then have "last (split_on c (x # xs)) = last ?r"
      using ne by (cases ?r) (auto simp: Let_def)
    then show ?thesis
      using Cons True by (auto simp: takeWhile_append)
  next
    case False
    then have "?r = [xs]" by (rule split_on_no_sep)
    then show ?thesis
      using False by (auto simp: Let_def takeWhile_append)
  qed
qed

lemma last_piece_final_suffix: "last_piece name = final_suffix name"
  by (simp add: last_piece_def final_suffix_def last_split_on)

lemma set_img_end: "set img_end = supported_extensions"
  by (auto simp: img_end_def supported_extensions_def)

lemma collect_filter:
  "collect img_file files acc =
   acc @ map (path_join img_file) (filter (\<lambda>name. final_suffix name \<in> supported_extensions) files)"
  by (induction files arbitrary: acc) (simp_all add: last_piece_final_suffix set_img_end)

subsection \<open>The claims about get\_image\_list\<close>

text \<open>
  C7: \<open>get_image_list\<close> fails with the not-found error when \<open>img_file\<close> is \<open>None\<close> or names
  nothing; for a regular file it returns that file alone when its final dot-separated
  suffix is one of \<open>jpg, png, jpeg, JPEG, JPG, bmp\<close>, and fails otherwise; for a directory
  it returns, in listing order and joined to the directory, exactly the entries whose
  final dot-separated suffix is in that set, and fails when there are none; for anything
  else that exists it fails.
\<close>

theorem get_image_list_result:
  "get_image_list fs img_file =
     (case img_file of
        None \<Rightarrow> Inl (NotFound None)
      | Some f \<Rightarrow>
          (case fs f of
             None \<Rightarrow> Inl (NotFound (Some f))
           | Some RegularFile \<Rightarrow>
               if final_suffix f \<in> supported_extensions then Inr [f]
               else Inl (NotFound (Some f))
           | Some (Directory entries) \<Rightarrow>
               (let matching = filter (\<lambda>name. final_suffix name \<in> supported_extensions) entries
                in if matching = [] then Inl (NotFound (Some f))
                   else Inr (map (path_join f) matching))
           | Some Special \<Rightarrow> Inl (NotFound (Some f))))"
  by (auto simp: get_image_list_def path_exists_def isfile_def isdir_def listdir_def
        collect_filter last_piece_final_suffix set_img_end Let_def
      split: option.splits fsnode.splits)

theorem get_image_list_result_witness:
  "get_image_list demo_fs (Some ''imgs'') = Inr [''imgs/a.jpg'', ''imgs/b.JPEG'', ''imgs/bmp'']
   \<and> get_image_list demo_fs (Some ''photo.png'') = Inr [''photo.png'']
   \<and> get_image_list demo_fs (Some ''empty'') = Inl (NotFound (Some ''empty''))
   \<and> get_image_list demo_fs (Some ''nothing'') = Inl (NotFound (Some ''nothing''))
   \<and> get_image_list demo_fs None = Inl (NotFound None)"
  by (simp add: get_image_list_result demo_fs_def final_suffix_def
        supported_extensions_def path_join_def)

text \<open>
  C10: a path that names an existing regular file whose extension is not enumerated is
  rejected with the not-found error, although the file exists.
\<close>

theorem get_image_list_unsupported_file:
  assumes "fs img_file = Some RegularFile"
      and "last_piece img_file \<notin> set img_end"
  shows "get_image_list fs (Some img_file) = Inl (NotFound (Some img_file))"
  using assms by (simp add: get_image_list_def path_exists_def isfile_def isdir_def)

theorem get_image_list_unsupported_file_witness:
  "get_image_list demo_fs (Some ''photo.PNG'') = Inl (NotFound (Some ''photo.PNG''))
   \<and> get_image_list demo_fs (Some ''photo.tiff'') = Inl (NotFound (Some ''photo.tiff''))"
proof -
  have "demo_fs ''photo.PNG'' = Some RegularFile" by (simp add: demo_fs_def)
  moreover have "last_piece ''photo.PNG'' \<notin> set img_end"
    by (simp add: last_piece_def img_end_def)
  moreover have "demo_fs ''photo.tiff'' = Some RegularFile" by (simp add: demo_fs_def)
  moreover have "last_piece ''photo.tiff'' \<notin> set img_end"
    by (simp add: last_piece_def img_end_def)
  ultimately show ?thesis
    using get_image_list_unsupported_file [of demo_fs "''photo.PNG''"]
          get_image_list_unsupported_file [of demo_fs "''photo.tiff''"]
    by blast
qed

section \<open>Properties of the pretrained loader\<close>

lemma xavier_pos:
  "0 < filter_size ^ 2 * channels \<Longrightarrow>
   xavier channels filter_size name =
     Inr \<lparr>attr_initializer = Some (Uniform (- sqrt (3 / real_of_int (filter_size ^ 2 * channels)))
                                         (sqrt (3 / real_of_int (filter_size ^ 2 * channels)))),
          attr_name = name @ ''_weights''\<rparr>"
proof -
  assume pos: "0 < filter_size ^ 2 * channels"
  then have "filter_size ^ 2 * channels \<noteq> 0" "\<not> filter_size ^ 2 * channels < 0" by linarith+
  then show ?thesis
    unfolding xavier_def Let_def by (simp only: if_False)
qed

lemma GoogLeNetDY_init_succeeds:
  "\<exists>model. GoogLeNetDY_init class_num data_format initial = Inr model
      \<and> g_parameters model = initial \<and> g_data_format model = data_format"
  by (simp add: GoogLeNetDY_init_def xavier_pos err_bind_def)

lemma MODEL_URLS_GoogLeNet:
  "MODEL_URLS ''GoogLeNet'' =
     Some ''https://paddle-imagenet-models-name.bj.bcebos.com/dygraph/GoogLeNet_pretrained.pdparams''"
  by (simp add: MODEL_URLS_def)

text \<open>
  C3: construction itself always succeeds, and then: a \<open>pretrained\<close> value that is
  neither a boolean nor a string makes \<open>GoogLeNet\<close> raise (the \<open>RuntimeError\<close> that the
  spec files under configuration errors) instead of returning a model, so no model, whole
  or partial, reaches a forward pass; \<open>False\<close> returns the constructed model without
  calling a loader; \<open>True\<close> is the result of the URL loader on the constructed model, the
  model URL and \<open>use_ssld\<close>; a string is the result of the path loader on the constructed
  model and that path.
\<close>

theorem GoogLeNet_pretrained_dispatch:
  "\<exists>model. GoogLeNetDY_init class_num data_format initial = Inr model
     \<and> ((\<forall>b. pretrained \<noteq> PyBool b) \<and> (\<forall>path. pretrained \<noteq> PyStr path)
          \<longrightarrow> GoogLeNet sl pretrained use_ssld class_num data_format initial = Inl RuntimeError)
     \<and> GoogLeNet sl (PyBool False) use_ssld class_num data_format initial = Inr model
     \<and> GoogLeNet sl (PyBool True) use_ssld class_num data_format initial =
         load_dygraph_pretrain_from_url sl model
           ''https://paddle-imagenet-models-name.bj.bcebos.com/dygraph/GoogLeNet_pretrained.pdparams''
           use_ssld
     \<and> GoogLeNet sl (PyStr path) use_ssld class_num data_format initial =
         load_dygraph_pretrain sl model path"
proof -
  obtain model where m: "GoogLeNetDY_init class_num data_format initial = Inr model"
    using GoogLeNetDY_init_succeeds by blast
  have "GoogLeNet sl pretrained use_ssld class_num data_format initial = Inl RuntimeError"
    if "\<forall>b. pretrained \<noteq> PyBool b" "\<forall>path. pretrained \<noteq> PyStr path"
  proof (cases pretrained)
    case (PyBool b)
    then show ?thesis using that by blast
  next
    case (PyStr path)
    then show ?thesis using that by blast
  qed (simp_all add: GoogLeNet_def m err_bind_def MODEL_URLS_GoogLeNet load_pretrained_def)
  then show ?thesis
    by (auto simp: GoogLeNet_def m err_bind_def MODEL_URLS_GoogLeNet load_pretrained_def)
qed

theorem GoogLeNet_pretrained_dispatch_witness:
  "GoogLeNet demo_save_load (PyInt 1) False 1000 NCHW Map.empty = Inl RuntimeError"
proof -
  have "(\<forall>b. PyInt 1 \<noteq> PyBool b) \<and> (\<forall>path. PyInt 1 \<noteq> PyStr path)" by simp
  then show ?thesis
    using GoogLeNet_pretrained_dispatch
      [of 1000 NCHW Map.empty "PyInt 1" demo_save_load False]
    by blast
qed

text \<open>
  C6: with \<open>pretrained = False\<close>, whatever the loaders would do, \<open>GoogLeNet\<close> returns the
  model exactly as \<open>GoogLeNetDY\<close> constructed it, its parameters being the values the
  initializers gave them, and \<open>_load_pretrained\<close> in that branch returns any model it is
  given unchanged.
\<close>

theorem GoogLeNet_not_pretrained_keeps_initial:
  "\<exists>model. GoogLeNetDY_init class_num data_format initial = Inr model
     \<and> GoogLeNet sl (PyBool False) use_ssld class_num data_format initial = Inr model
     \<and> g_parameters model = initial
     \<and> load_pretrained sl (PyBool False) any_model model_url use_ssld = Inr any_model"
proof -
  obtain model where m: "GoogLeNetDY_init class_num data_format initial = Inr model"
      "g_parameters model = initial"
    using GoogLeNetDY_init_succeeds by blast
  then show ?thesis
    by (simp add: GoogLeNet_def err_bind_def MODEL_URLS_GoogLeNet load_pretrained_def)
qed

theorem GoogLeNet_not_pretrained_keeps_initial_witness:
  "\<exists>model. GoogLeNet demo_save_load (PyBool False) False 1000 NCHW [''w'' \<mapsto> [1, 2]] = Inr model
      \<and> g_parameters model = [''w'' \<mapsto> [1, 2]]"
  using GoogLeNet_not_pretrained_keeps_initial
    [of 1000 NCHW "[''w'' \<mapsto> [1, 2]]" demo_save_load False]
  by blast

section \<open>Properties of the network\<close>

subsection \<open>Shapes through an inception module\<close>

lemma out_size_same:
  "0 < h \<Longrightarrow> out_size h 1 1 0 = Inr h"
  "0 < h \<Longrightarrow> out_size h 3 1 1 = Inr h"
  "0 < h \<Longrightarrow> out_size h 5 1 2 = Inr h"
  by (simp_all add: out_size_def Let_def)

lemma conv2d_shape_same:
  assumes "0 < h" and "0 < w"
      and "(k, p) \<in> {(1, 0), (3, 1), (5, 2)}"
      and "conv_kernel conv = k" and "conv_padding conv = p" and "conv_stride conv = 1"
      and "conv_in conv = c"
  shows "conv2d_shape conv (pack (conv_format conv) (n, c, h, w)) =
         Inr (pack (conv_format conv) (n, conv_out conv, h, w))"
  using assms
  by (cases "conv_format conv") (auto simp: conv2d_shape_def err_bind_def out_size_same)

lemma pool2d_shape_same:
  assumes "0 < h" and "0 < w"
      and "pool_kernel pool = 3" and "pool_padding pool = 1" and "pool_stride pool = 1"
  shows "pool2d_shape pool (pack (pool_format pool) (n, c, h, w)) =
         Inr (pack (pool_format pool) (n, c, h, w))"
  using assms
  by (cases "pool_format pool") (auto simp: pool2d_shape_def err_bind_def out_size_same)

lemma concat_shape_channels:
  "concat_shape (case fmt of NCHW \<Rightarrow> 1 | NHWC \<Rightarrow> 3)
     [pack fmt (n, c1, h, w), pack fmt (n, c2, h, w), pack fmt (n, c3, h, w), pack fmt (n, c4, h, w)] =
   Inr (pack fmt (n, c1 + c2 + c3 + c4, h, w))"
  by (cases fmt) (simp_all add: concat_shape_def numeral_3_eq_3)

lemma Inception_forward_eq:
  "Inception_forward self inputs =
     Relu (Concat [ApplyConv (i_conv1 self) inputs,
                   ApplyConv (i_conv3 self) (ApplyConv (i_conv3r self) inputs),
                   ApplyConv (i_conv5 self) (ApplyConv (i_conv5r self) inputs),
                   ApplyConv (i_convprj self) (ApplyMaxPool (i_pool self) inputs)]
             (case i_data_format self of NCHW \<Rightarrow> 1 | NHWC \<Rightarrow> 3))"
  by (cases "i_data_format self") (simp_all add: Inception_forward_def ConvLayer_forward_def)

text \<open>
  C4: for an input of shape \<open>[N, Cin, H, W]\<close> (in the module's layout, with \<open>H\<close> and
  \<open>W\<close> positive and \<open>Cin\<close> the module's input channel count), \<open>Inception.forward\<close> is
  the rectified-linear activation of the concatenation, along the channel axis of the
  layout, of the four branches in the order 1x1, 3x3, 5x5, pooled projection; each
  branch has the input's \<open>H\<close> and \<open>W\<close> and its own width as channel count, and the
  result has \<open>filter1 + filter3 + filter5 + proj\<close> channels.
\<close>

theorem Inception_forward_concat:
  assumes "0 < h" and "0 < w"
      and "shape_of inp inputs = Inr (pack fmt (n, input_channels, h, w))"
  shows "let self = Inception_init input_channels output_channels filter1 filter3R filter3
                      filter5R filter5 proj name fmt;
             b1 = ApplyConv (i_conv1 self) inputs;
             b3 = ApplyConv (i_conv3 self) (ApplyConv (i_conv3r self) inputs);
             b5 = ApplyConv (i_conv5 self) (ApplyConv (i_conv5r self) inputs);
             bp = ApplyConv (i_convprj self) (ApplyMaxPool (i_pool self) inputs)
         in Inception_forward self inputs =
              Relu (Concat [b1, b3, b5, bp] (case fmt of NCHW \<Rightarrow> 1 | NHWC \<Rightarrow> 3))
          \<and> conv_kernel (i_conv1 self) = 1 \<and> conv_kernel (i_conv3 self) = 3
          \<and> conv_kernel (i_conv5 self) = 5 \<and> conv_kernel (i_convprj self) = 1
          \<and> shape_of inp b1 = Inr (pack fmt (n, filter1, h, w))
          \<and> shape_of inp b3 = Inr (pack fmt (n, filter3, h, w))
          \<and> shape_of inp b5 = Inr (pack fmt (n, filter5, h, w))
          \<and> shape_of inp bp = Inr (pack fmt (n, proj, h, w))
          \<and> shape_of inp (Inception_forward self inputs) =
              Inr (pack fmt (n, filter1 + filter3 + filter5 + proj, h, w))"
proof -
  define self where "self = Inception_init input_channels output_channels filter1 filter3R filter3
                      filter5R filter5 proj name fmt"
  define b1 where "b1 = ApplyConv (i_conv1 self) inputs"
  define b3 where "b3 = ApplyConv (i_conv3 self) (ApplyConv (i_conv3r self) inputs)"
  define b5 where "b5 = ApplyConv (i_conv5 self) (ApplyConv (i_conv5r self) inputs)"
  define bp where "bp = ApplyConv (i_convprj self) (ApplyMaxPool (i_pool self) inputs)"
  note hw = assms(1,2) and inp = assms(3)
  have fmt: "i_data_format self = fmt"
    by (simp add: self_def Inception_init_def)
  have s1: "shape_of inp b1 = Inr (pack fmt (n, filter1, h, w))"
    using hw inp conv2d_shape_same[of h w 1 0 "i_conv1 self" input_channels n]
    by (simp add: b1_def self_def Inception_init_def ConvLayer_init_def err_bind_def)
  have r3: "shape_of inp (ApplyConv (i_conv3r self) inputs) = Inr (pack fmt (n, filter3R, h, w))"
    using hw inp conv2d_shape_same[of h w 1 0 "i_conv3r self" input_channels n]
    by (simp add: self_def Inception_init_def ConvLayer_init_def err_bind_def)
  have s3: "shape_of inp b3 = Inr (pack fmt (n, filter3, h, w))"
    using hw r3 conv2d_shape_same[of h w 3 1 "i_conv3 self" filter3R n]
    by (simp add: b3_def self_def Inception_init_def ConvLayer_init_def err_bind_def)
  have r5: "shape_of inp (ApplyConv (i_conv5r self) inputs) = Inr (pack fmt (n, filter5R, h, w))"
    using hw inp conv2d_shape_same[of h w 1 0 "i_conv5r self" input_channels n]
    by (simp add: self_def Inception_init_def ConvLayer_init_def err_bind_def)
  have s5: "shape_of inp b5 = Inr (pack fmt (n, filter5, h, w))"
    using hw r5 conv2d_shape_same[of h w 5 2 "i_conv5 self" filter5R n]
    by (simp add: b5_def self_def Inception_init_def ConvLayer_init_def err_bind_def)
  have rp: "shape_of inp (ApplyMaxPool (i_pool self) inputs) = Inr (pack fmt (n, input_channels, h, w))"
    using hw inp pool2d_shape_same[of h w "i_pool self" n input_channels]
    by (simp add: self_def Inception_init_def err_bind_def)
  have sp: "shape_of inp bp = Inr (pack fmt (n, proj, h, w))"
    using hw rp conv2d_shape_same[of h w 1 0 "i_convprj self" input_channels n]
    by (simp add: bp_def self_def Inception_init_def ConvLayer_init_def err_bind_def)
  have eq: "Inception_forward self inputs =
           Relu (Concat [b1, b3, b5, bp] (case fmt of NCHW \<Rightarrow> 1 | NHWC \<Rightarrow> 3))"
    by (simp add: Inception_forward_eq fmt b1_def b3_def b5_def bp_def)
  have "shape_of inp (Inception_forward self inputs) =
           Inr (pack fmt (n, filter1 + filter3 + filter5 + proj, h, w))"
    by (simp add: eq s1 s3 s5 sp err_bind_def concat_shape_channels)
  moreover have "conv_kernel (i_conv1 self) = 1 \<and> conv_kernel (i_conv3 self) = 3
       \<and> conv_kernel (i_conv5 self) = 5 \<and> conv_kernel (i_convprj self) = 1"
    by (simp add: self_def Inception_init_def ConvLayer_init_def)
  ultimately show ?thesis
    using eq s1 s3 s5 sp
    unfolding Let_def self_def [symmetric] b1_def [symmetric] b3_def [symmetric]
      b5_def [symmetric] bp_def [symmetric]
    by blast
qed

theorem Inception_forward_concat_witness:
  "shape_of [1, 192, 28, 28]
     (Inception_forward (Inception_init 192 192 64 96 128 16 32 32 ''ince3a'' NCHW) Input) =
   Inr [1, 256, 28, 28]"
proof -
  have h: "(0::int) < 28" by simp
  have s: "shape_of [1, 192, 28, 28] Input = Inr (pack NCHW (1, 192, 28, 28))" by simp
  from Inception_forward_concat [OF h h s, of 192 64 96 128 16 32 32 "''ince3a''"]
  have "shape_of [1, 192, 28, 28]
          (Inception_forward (Inception_init 192 192 64 96 128 16 32 32 ''ince3a'' NCHW) Input) =
        Inr (pack NCHW (1, 64 + 128 + 32 + 32, 28, 28))"
    unfolding Let_def by blast
  then show ?thesis by simp
qed

subsection \<open>Shapes through the whole network\<close>

text \<open>
  A check of the layer constants against each other: for a batch of \<open>224 \<times> 224\<close>
  images with three channels, in either layout, every layer accepts the shape it is
  given and each of the three heads ends in \<open>[n, class_num]\<close>. The stage-4 taps are
  \<open>13 \<times> 13\<close>, so the auxiliary heads flatten \<open>128 \<times> 3 \<times> 3 = 1152\<close> features, the
  count their first linear layers are built for.
\<close>

lemma concat4_shape:
  assumes "shape_of inp b1 = Inr (pack fmt (n, c1, h, w))"
      and "shape_of inp b2 = Inr (pack fmt (n, c2, h, w))"
      and "shape_of inp b3 = Inr (pack fmt (n, c3, h, w))"
      and "shape_of inp b4 = Inr (pack fmt (n, c4, h, w))"
  shows "shape_of inp (Relu (Concat [b1, b2, b3, b4] (case fmt of NCHW \<Rightarrow> 1 | NHWC \<Rightarrow> 3))) =
         Inr (pack fmt (n, c1 + c2 + c3 + c4, h, w))"
  using assms by (simp add: err_bind_def concat_shape_channels)

lemma Inception_shape:
  assumes "0 < h" and "0 < w"
      and "shape_of inp inputs = Inr (pack fmt (n, input_channels, h, w))"
  shows "shape_of inp
           (Inception_forward
              (Inception_init input_channels output_channels filter1 filter3R filter3
                 filter5R filter5 proj name fmt) inputs) =
         Inr (pack fmt (n, filter1 + filter3 + filter5 + proj, h, w))"
proof -
  let ?self = "Inception_init input_channels output_channels filter1 filter3R filter3
                 filter5R filter5 proj name fmt"
  note hw = assms(1,2) and inp = assms(3)
  have s1: "shape_of inp (ApplyConv (i_conv1 ?self) inputs) = Inr (pack fmt (n, filter1, h, w))"
    using hw inp conv2d_shape_same[of h w 1 0 "i_conv1 ?self" input_channels n]
    by (simp add: Inception_init_def ConvLayer_init_def err_bind_def)
  have r3: "shape_of inp (ApplyConv (i_conv3r ?self) inputs) = Inr (pack fmt (n, filter3R, h, w))"
    using hw inp conv2d_shape_same[of h w 1 0 "i_conv3r ?self" input_channels n]
    by (simp add: Inception_init_def ConvLayer_init_def err_bind_def)
  have s3: "shape_of inp (ApplyConv (i_conv3 ?self) (ApplyConv (i_conv3r ?self) inputs)) =
            Inr (pack fmt (n, filter3, h, w))"
    using hw r3 conv2d_shape_same[of h w 3 1 "i_conv3 ?self" filter3R n]
    by (simp add: Inception_init_def ConvLayer_init_def err_bind_def)
  have r5: "shape_of inp (ApplyConv (i_conv5r ?self) inputs) = Inr (pack fmt (n, filter5R, h, w))"
    using hw inp conv2d_shape_same[of h w 1 0 "i_conv5r ?self" input_channels n]
    by (simp add: Inception_init_def ConvLayer_init_def err_bind_def)
  have s5: "shape_of inp (ApplyConv (i_conv5 ?self) (ApplyConv (i_conv5r ?self) inputs)) =
            Inr (pack fmt (n, filter5, h, w))"
    using hw r5 conv2d_shape_same[of h w 5 2 "i_conv5 ?self" filter5R n]
    by (simp add: Inception_init_def ConvLayer_init_def err_bind_def)
  have rp: "shape_of inp (ApplyMaxPool (i_pool ?self) inputs) =
            Inr (pack fmt (n, input_channels, h, w))"
    using hw inp pool2d_shape_same[of h w "i_pool ?self" n input_channels]
    by (simp add: Inception_init_def err_bind_def)
  have sp: "shape_of inp (ApplyConv (i_convprj ?self) (ApplyMaxPool (i_pool ?self) inputs)) =
            Inr (pack fmt (n, proj, h, w))"
    using hw rp conv2d_shape_same[of h w 1 0 "i_convprj ?self" input_channels n]
    by (simp add: Inception_init_def ConvLayer_init_def err_bind_def)
  have fmt: "i_data_format ?self = fmt" by (simp add: Inception_init_def)
  show ?thesis
    unfolding Inception_forward_eq fmt by (rule concat4_shape [OF s1 s3 s5 sp])
qed

lemma conv_layer_shape:
  assumes "shape_of inp x = Inr (pack fmt (n, c, h, w))"
      and "out_size h k s ((k - 1) div 2) = Inr h'" and "out_size w k s ((k - 1) div 2) = Inr w'"
  shows "shape_of inp (ConvLayer_forward (ConvLayer_init c c' k s g name fmt) x) =
         Inr (pack fmt (n, c', h', w'))"
  using assms
  by (cases fmt) (simp_all add: ConvLayer_forward_def ConvLayer_init_def conv2d_shape_def err_bind_def)

lemma GoogLeNetDY_init_layers:
  assumes "GoogLeNetDY_init class_num fmt initial = Inr m"
  shows "g_data_format m = fmt"
    and "g_conv m = ConvLayer_init 3 64 7 2 1 ''conv1'' fmt"
    and "g_pool m = \<lparr>pool_kernel = 3, pool_stride = 2, pool_padding = 0, pool_format = fmt\<rparr>"
    and "g_conv_1 m = ConvLayer_init 64 64 1 1 1 ''conv2_1x1'' fmt"
    and "g_conv_2 m = ConvLayer_init 64 192 3 1 1 ''conv2_3x3'' fmt"
    and "g_ince3a m = Inception_init 192 192 64 96 128 16 32 32 ''ince3a'' fmt"
    and "g_ince3b m = Inception_init 256 256 128 128 192 32 96 64 ''ince3b'' fmt"
    and "g_ince4a m = Inception_init 480 480 192 96 208 16 48 64 ''ince4a'' fmt"
    and "g_ince4b m = Inception_init 512 512 160 112 224 24 64 64 ''ince4b'' fmt"
    and "g_ince4c m = Inception_init 512 512 128 128 256 24 64 64 ''ince4c'' fmt"
    and "g_ince4d m = Inception_init 512 512 112 144 288 32 64 64 ''ince4d'' fmt"
    and "g_ince4e m = Inception_init 528 528 256 160 320 32 128 128 ''ince4e'' fmt"
    and "g_ince5a m = Inception_init 832 832 256 160 320 32 128 128 ''ince5a'' fmt"
    and "g_ince5b m = Inception_init 832 832 384 192 384 48 128 128 ''ince5b'' fmt"
    and "g_pool_5 m = 1"
    and "lin_in (g_fc_out m) = 1024" and "lin_out (g_fc_out m) = class_num"
    and "g_pool_o1 m = \<lparr>pool_kernel = 5, pool_stride = 3, pool_padding = 0, pool_format = fmt\<rparr>"
    and "g_conv_o1 m = ConvLayer_init 512 128 1 1 1 ''conv_o1'' fmt"
    and "lin_in (g_fc_o1 m) = 1152" and "lin_out (g_fc_o1 m) = 1024"
    and "lin_in (g_out1 m) = 1024" and "lin_out (g_out1 m) = class_num"
    and "g_pool_o2 m = \<lparr>pool_kernel = 5, pool_stride = 3, pool_padding = 0, pool_format = fmt\<rparr>"
    and "g_conv_o2 m = ConvLayer_init 528 128 1 1 1 ''conv_o2'' fmt"
    and "lin_in (g_fc_o2 m) = 1152" and "lin_out (g_fc_o2 m) = 1024"
    and "lin_in (g_out2 m) = 1024" and "lin_out (g_out2 m) = class_num"
  using assms by (auto simp: GoogLeNetDY_init_def xavier_pos err_bind_def)

lemma max_pool_shape:
  assumes "shape_of inp x = Inr (pack fmt (n, c, h, w))"
      and "out_size h k s p = Inr h'" and "out_size w k s p = Inr w'"
  shows "shape_of inp (ApplyMaxPool \<lparr>pool_kernel = k, pool_stride = s, pool_padding = p,
                                      pool_format = fmt\<rparr> x) = Inr (pack fmt (n, c, h', w'))"
  using assms by (cases fmt) (simp_all add: pool2d_shape_def err_bind_def)

lemma avg_pool_shape:
  assumes "shape_of inp x = Inr (pack fmt (n, c, h, w))"
      and "out_size h k s p = Inr h'" and "out_size w k s p = Inr w'"
  shows "shape_of inp (ApplyAvgPool \<lparr>pool_kernel = k, pool_stride = s, pool_padding = p,
                                      pool_format = fmt\<rparr> x) = Inr (pack fmt (n, c, h', w'))"
  using assms by (cases fmt) (simp_all add: pool2d_shape_def err_bind_def)

lemma head_shape:
  assumes "shape_of inp x = Inr (pack fmt (n, c, h, w))"
      and "lin_in l1 = c * h * w"
  shows "shape_of inp (ApplyLinear l1 (Flatten x)) = Inr [n, lin_out l1]"
  using assms by (cases fmt) (simp_all add: err_bind_def flatten_shape_def linear_shape_def ac_simps)

lemma linear2_shape:
  assumes "shape_of inp x = Inr [n, f]" and "lin_in l = f" and "lin_out l = f'"
  shows "shape_of inp (ApplyLinear l x) = Inr [n, f']"
  using assms by (simp add: err_bind_def linear_shape_def)

lemma stage4_input_shape:
  assumes "GoogLeNetDY_init class_num fmt initial = Inr m"
  shows "shape_of [n, 3, 224, 224] (stage4_input m Input) = Inr (pack fmt (n, 480, 13, 13))"
proof -
  note L = GoogLeNetDY_init_layers [OF assms]
  let ?inp = "[n, 3, 224, 224]"
  define x0 where "x0 = (if fmt = NHWC then Transpose [0, 2, 3, 1] Input else Input)"
  have s0: "shape_of ?inp x0 = Inr (pack fmt (n, 3, 224, 224))"
    by (cases fmt) (simp_all add: x0_def err_bind_def transpose_shape_def upt_rec)
  define x1 where "x1 = ConvLayer_forward (ConvLayer_init 3 64 7 2 1 ''conv1'' fmt) x0"
  have s1: "shape_of ?inp x1 = Inr (pack fmt (n, 64, 112, 112))"
    unfolding x1_def by (rule conv_layer_shape [OF s0]) (simp_all add: out_size_def)
  define x2 where "x2 = ApplyMaxPool (g_pool m) x1"
  have s2: "shape_of ?inp x2 = Inr (pack fmt (n, 64, 55, 55))"
    unfolding x2_def L by (rule max_pool_shape [OF s1]) (simp_all add: out_size_def)
  define x3 where "x3 = ConvLayer_forward (ConvLayer_init 64 64 1 1 1 ''conv2_1x1'' fmt) x2"
  have s3: "shape_of ?inp x3 = Inr (pack fmt (n, 64, 55, 55))"
    unfolding x3_def by (rule conv_layer_shape [OF s2]) (simp_all add: out_size_def)
  define x4 where "x4 = ConvLayer_forward (ConvLayer_init 64 192 3 1 1 ''conv2_3x3'' fmt) x3"
  have s4: "shape_of ?inp x4 = Inr (pack fmt (n, 192, 55, 55))"
    unfolding x4_def by (rule conv_layer_shape [OF s3]) (simp_all add: out_size_def)
  define x5 where "x5 = ApplyMaxPool (g_pool m) x4"
  have s5: "shape_of ?inp x5 = Inr (pack fmt (n, 192, 27, 27))"
    unfolding x5_def L by (rule max_pool_shape [OF s4]) (simp_all add: out_size_def)
  define x6 where "x6 = Inception_forward (g_ince3a m) x5"
  have s6: "shape_of ?inp x6 = Inr (pack fmt (n, 256, 27, 27))"
    unfolding x6_def L using Inception_shape [OF _ _ s5, of 192 64 96 128 16 32 32 "''ince3a''"]
    by simp
  define x7 where "x7 = Inception_forward (g_ince3b m) x6"
  have s7: "shape_of ?inp x7 = Inr (pack fmt (n, 480, 27, 27))"
    unfolding x7_def L using Inception_shape [OF _ _ s6, of 256 128 128 192 32 96 64 "''ince3b''"]
    by simp
  have "shape_of ?inp (ApplyMaxPool (g_pool m) x7) = Inr (pack fmt (n, 480, 13, 13))"
    unfolding L by (rule max_pool_shape [OF s7]) (simp_all add: out_size_def)
  moreover have "stage4_input m Input = ApplyMaxPool (g_pool m) x7"
    by (simp add: stage4_input_def Let_def x7_def x6_def x5_def x4_def x3_def x2_def x1_def x0_def L(1,2,4-7))
  ultimately show ?thesis by simp
qed

lemma relu_dropout_shape:
  "shape_of inp (Relu x) = shape_of inp x"
  "shape_of inp (ApplyDropout d t x) = shape_of inp x"
  by simp_all

lemma GoogLeNetDY_forward_shapes:
  assumes "GoogLeNetDY_init class_num fmt initial = Inr m"
  shows "map (shape_of [n, 3, 224, 224]) (GoogLeNetDY_forward m Input) =
           [Inr [n, class_num], Inr [n, class_num], Inr [n, class_num]]"
proof -
  note L = GoogLeNetDY_init_layers [OF assms]
  let ?inp = "[n, 3, 224, 224]"
  define x where "x = stage4_input m Input"
  have sx: "shape_of ?inp x = Inr (pack fmt (n, 480, 13, 13))"
    unfolding x_def by (rule stage4_input_shape [OF assms])
  define a where "a = Inception_forward (g_ince4a m) x"
  have sa: "shape_of ?inp a = Inr (pack fmt (n, 512, 13, 13))"
    unfolding a_def L using Inception_shape [OF _ _ sx, of 480 192 96 208 16 48 64 "''ince4a''"]
    by simp
  define b where "b = Inception_forward (g_ince4b m) a"
  have sb: "shape_of ?inp b = Inr (pack fmt (n, 512, 13, 13))"
    unfolding b_def L using Inception_shape [OF _ _ sa, of 512 160 112 224 24 64 64 "''ince4b''"]
    by simp
  define c where "c = Inception_forward (g_ince4c m) b"
  have sc: "shape_of ?inp c = Inr (pack fmt (n, 512, 13, 13))"
    unfolding c_def L using Inception_shape [OF _ _ sb, of 512 128 128 256 24 64 64 "''ince4c''"]
    by simp
  define d where "d = Inception_forward (g_ince4d m) c"
  have sd: "shape_of ?inp d = Inr (pack fmt (n, 528, 13, 13))"
    unfolding d_def L using Inception_shape [OF _ _ sc, of 512 112 144 288 32 64 64 "''ince4d''"]
    by simp
  define e where "e = Inception_forward (g_ince4e m) d"
  have se: "shape_of ?inp e = Inr (pack fmt (n, 832, 13, 13))"
    unfolding e_def L using Inception_shape [OF _ _ sd, of 528 256 160 320 32 128 128 "''ince4e''"]
    by simp
  define p where "p = ApplyMaxPool (g_pool m) e"
  have sp: "shape_of ?inp p = Inr (pack fmt (n, 832, 6, 6))"
    unfolding p_def L by (rule max_pool_shape [OF se]) (simp_all add: out_size_def)
  define f where "f = Inception_forward (g_ince5a m) p"
  have sf: "shape_of ?inp f = Inr (pack fmt (n, 832, 6, 6))"
    unfolding f_def L using Inception_shape [OF _ _ sp, of 832 256 160 320 32 128 128 "''ince5a''"]
    by simp
  define g where "g = Inception_forward (g_ince5b m) f"
  have sg: "shape_of ?inp g = Inr (pack fmt (n, 1024, 6, 6))"
    unfolding g_def L using Inception_shape [OF _ _ sf, of 832 384 192 384 48 128 128 "''ince5b''"]
    by simp
  define q where "q = ApplyDropout (g_drop m) (g_training m)
                        (ApplyAdaptiveAvgPool (g_pool_5 m) (g_data_format m) g)"
  have sq: "shape_of ?inp q = Inr (pack fmt (n, 1024, 1, 1))"
    unfolding q_def L using sg by (cases fmt) (simp_all add: err_bind_def adaptive_pool_shape_def)
  have main: "shape_of ?inp (ApplyLinear (g_fc_out m) (Flatten q)) = Inr [n, class_num]"
    using head_shape [OF sq, of "g_fc_out m"] by (simp add: L)

  define a1 where "a1 = ConvLayer_forward (g_conv_o1 m) (ApplyAvgPool (g_pool_o1 m) a)"
  have "shape_of ?inp (ApplyAvgPool (g_pool_o1 m) a) = Inr (pack fmt (n, 512, 3, 3))"
    unfolding L by (rule avg_pool_shape [OF sa]) (simp_all add: out_size_def)
  then have sa1: "shape_of ?inp a1 = Inr (pack fmt (n, 128, 3, 3))"
    unfolding a1_def L by (rule conv_layer_shape) (simp_all add: out_size_def)
  have "shape_of ?inp (ApplyLinear (g_fc_o1 m) (Flatten a1)) = Inr [n, 1024]"
    using head_shape [OF sa1, of "g_fc_o1 m"] by (simp add: L)
  then have "shape_of ?inp (ApplyDropout (g_drop_o1 m) (g_training m)
                 (Relu (ApplyLinear (g_fc_o1 m) (Flatten a1)))) = Inr [n, 1024]"
    by (simp only: relu_dropout_shape)
  then have aux1: "shape_of ?inp (ApplyLinear (g_out1 m) (ApplyDropout (g_drop_o1 m) (g_training m)
                 (Relu (ApplyLinear (g_fc_o1 m) (Flatten a1))))) = Inr [n, class_num]"
    by (rule linear2_shape) (simp_all add: L)

  define a2 where "a2 = ConvLayer_forward (g_conv_o2 m) (ApplyAvgPool (g_pool_o2 m) d)"
  have "shape_of ?inp (ApplyAvgPool (g_pool_o2 m) d) = Inr (pack fmt (n, 528, 3, 3))"
    unfolding L by (rule avg_pool_shape [OF sd]) (simp_all add: out_size_def)
  then have sa2: "shape_of ?inp a2 = Inr (pack fmt (n, 128, 3, 3))"
    unfolding a2_def L by (rule conv_layer_shape) (simp_all add: out_size_def)
  have "shape_of ?inp (ApplyLinear (g_fc_o2 m) (Flatten a2)) = Inr [n, 1024]"
    using head_shape [OF sa2, of "g_fc_o2 m"] by (simp add: L)
  then have "shape_of ?inp (ApplyDropout (g_drop_o2 m) (g_training m)
                 (ApplyLinear (g_fc_o2 m) (Flatten a2))) = Inr [n, 1024]"
    by (simp only: relu_dropout_shape)
  then have aux2: "shape_of ?inp (ApplyLinear (g_out2 m) (ApplyDropout (g_drop_o2 m) (g_training m)
                 (ApplyLinear (g_fc_o2 m) (Flatten a2)))) = Inr [n, class_num]"
    by (rule linear2_shape) (simp_all add: L)

  have "GoogLeNetDY_forward m Input =
          [ApplyLinear (g_fc_out m) (Flatten q),
           ApplyLinear (g_out1 m) (ApplyDropout (g_drop_o1 m) (g_training m)
                 (Relu (ApplyLinear (g_fc_o1 m) (Flatten a1)))),
           ApplyLinear (g_out2 m) (ApplyDropout (g_drop_o2 m) (g_training m)
                 (ApplyLinear (g_fc_o2 m) (Flatten a2)))]"
    unfolding q_def g_def f_def p_def e_def d_def c_def b_def a_def x_def a1_def a2_def
    by (simp add: GoogLeNetDY_forward_def stage4_input_def Let_def)
  then show ?thesis
    by (simp only: list.map main aux1 aux2)
qed

subsection \<open>The three heads\<close>

text \<open>
  C5: for every model and input, in either mode, \<open>GoogLeNetDY.forward\<close> returns exactly
  three tensors. The first is the main head: stem, stage 3, the five stage-4 modules,
  pool, stage 5, global average pool, dropout, flatten, linear. The second is head 1:
  from the output of the first stage-4 module (\<open>ince4a\<close>): average pool, convolution,
  flatten, linear, activation, dropout, linear. The third is head 2: from the output of
  the fourth stage-4 module (\<open>ince4d\<close>): average pool, convolution, flatten, linear,
  dropout, linear, with no activation.
\<close>

theorem GoogLeNetDY_forward_heads:
  "let x0 = (if g_data_format self = NHWC then Transpose [0, 2, 3, 1] inputs else inputs);
       stem = ApplyMaxPool (g_pool self)
                (ApplyConv (g_conv_2 self)
                  (ApplyConv (g_conv_1 self)
                    (ApplyMaxPool (g_pool self) (ApplyConv (g_conv self) x0))));
       stage3 = ApplyMaxPool (g_pool self)
                  (Inception_forward (g_ince3b self) (Inception_forward (g_ince3a self) stem));
       tap1 = Inception_forward (g_ince4a self) stage3;
       tap4 = Inception_forward (g_ince4d self)
                (Inception_forward (g_ince4c self) (Inception_forward (g_ince4b self) tap1));
       stage5 = Inception_forward (g_ince5b self)
                  (Inception_forward (g_ince5a self)
                    (ApplyMaxPool (g_pool self) (Inception_forward (g_ince4e self) tap4)));
       main = ApplyLinear (g_fc_out self)
                (Flatten
                  (ApplyDropout (g_drop self) (g_training self)
                    (ApplyAdaptiveAvgPool (g_pool_5 self) (g_data_format self) stage5)));
       aux1 = ApplyLinear (g_out1 self)
                (ApplyDropout (g_drop_o1 self) (g_training self)
                  (Relu
                    (ApplyLinear (g_fc_o1 self)
                      (Flatten (ApplyConv (g_conv_o1 self) (ApplyAvgPool (g_pool_o1 self) tap1))))));
       aux2 = ApplyLinear (g_out2 self)
                (ApplyDropout (g_drop_o2 self) (g_training self)
                  (ApplyLinear (g_fc_o2 self)
                    (Flatten (ApplyConv (g_conv_o2 self) (ApplyAvgPool (g_pool_o2 self) tap4)))))
   in GoogLeNetDY_forward self inputs = [main, aux1, aux2]"
  by (simp add: GoogLeNetDY_forward_def ConvLayer_forward_def Let_def)

subsection \<open>The bound of the xavier initializer\<close>

text \<open>
  What \<open>xavier\<close> computes: whenever it returns, the bound \<open>b\<close> of its uniform
  initializer satisfies \<open>b\<^sup>2 = 3 / (filter_size\<^sup>2 \<times> channels)\<close> for the \<open>channels\<close> it
  was called with.
\<close>

lemma xavier_bound_sq:
  assumes "xavier channels filter_size name = Inr attr"
  shows "\<exists>b. attr_initializer attr = Some (Uniform (- b) b)
           \<and> b ^ 2 = 3 / real_of_int (filter_size ^ 2 * channels)"
proof -
  let ?d = "filter_size ^ 2 * channels"
  have "\<not> ?d = 0" "\<not> ?d < 0"
    using assms unfolding xavier_def Let_def by (auto split: if_splits)
  then have pos: "0 < ?d" by linarith
  then have "0 < real_of_int ?d" by (simp only: of_int_0_less_iff)
  then have "0 \<le> 3 / real_of_int ?d" by (intro divide_nonneg_pos) (simp, assumption)
  then have sq: "(sqrt (3 / real_of_int ?d)) ^ 2 = 3 / real_of_int ?d"
    by (rule real_sqrt_pow2)
  have "attr_initializer attr = Some (Uniform (- sqrt (3 / real_of_int ?d)) (sqrt (3 / real_of_int ?d)))"
    using assms unfolding xavier_pos [OF pos, of name] by auto
  then show ?thesis using sq by blast
qed

text \<open>
  C8 fails on the code for \<open>_fc_o1\<close> and \<open>_fc_o2\<close>: both layers take \<open>1152\<close> input
  features, and both are initialized by \<open>xavier(2048, 1, ...)\<close>, so the square of their
  bound is \<open>3 / 2048\<close> and not \<open>3 / 1152\<close>.
\<close>

theorem fc_aux_xavier_not_fan_in:
  "\<exists>model b. GoogLeNetDY_init class_num data_format initial = Inr model
     \<and> lin_in (g_fc_o1 model) = 1152
     \<and> attr_initializer (lin_weight (g_fc_o1 model)) = Some (Uniform (- b) b)
     \<and> lin_in (g_fc_o2 model) = 1152
     \<and> attr_initializer (lin_weight (g_fc_o2 model)) = Some (Uniform (- b) b)
     \<and> b ^ 2 = 3 / (1 ^ 2 * 2048)
     \<and> b ^ 2 \<noteq> 3 / (1 ^ 2 * real_of_int (lin_in (g_fc_o1 model)))
     \<and> b ^ 2 \<noteq> 3 / (1 ^ 2 * real_of_int (lin_in (g_fc_o2 model)))"
  by (simp add: GoogLeNetDY_init_def xavier_pos err_bind_def)

end
